theory Spec2Isabelle
  imports Main
begin

section \<open>Shared declarations (96boards-mezzanines.h)\<close>

text \<open>The twelve GPIO lines of the low-speed connector, \<^verbatim>\<open>enum ls_gpio\<close>.\<close>

datatype ls_gpio =
    LS_GPIO_A | LS_GPIO_B | LS_GPIO_C | LS_GPIO_D | LS_GPIO_E | LS_GPIO_F
  | LS_GPIO_G | LS_GPIO_H | LS_GPIO_I | LS_GPIO_J | LS_GPIO_K | LS_GPIO_L

text \<open>The error numbers the two drivers return (as negative values in C).\<close>

datatype errno = ENOMEM | ENODEV | EPROBE_DEFER | ENOSPC | EEXIST | EINVAL

text \<open>
  A kernel fault: the code dereferences a NULL pointer, or hands \<^verbatim>\<open>kfree\<close> a pointer
  that no allocation returned. What happens from there on is not determined by the
  drivers, and the call is taken to end there.
\<close>

datatype fault = Null_deref | Bad_free

section \<open>The secure96 mezzanine driver (96boards-secure96.c)\<close>

text \<open>
  The three I2C chips are the three \<^verbatim>\<open>i2c_board_info\<close> constants of the file:
  \<^verbatim>\<open>secure96_eeprom\<close>, \<^verbatim>\<open>secure96_crypto\<close> and \<^verbatim>\<open>secure96_hash\<close>.
  A pointer is an option (NULL is \<open>None\<close>); a GPIO descriptor is identified by
  its line, an I2C client by its chip.
\<close>

datatype i2c_chip = Eeprom | Crypto | Hash

text \<open>
  What the driver asks of the kernel, in the order it asks. Acquisitions are logged when
  they succeed; a release is logged with the pointer it is given; \<^verbatim>\<open>dev_err\<close> is
  logged with its format string. \<open>I2c_new_device c wp\<close> carries the write-protect
  descriptor that the chip's platform data holds at the time of the call (only
  \<^verbatim>\<open>secure96_eeprom\<close> has platform data, the module-global
  \<^verbatim>\<open>secure96_eeprom_pdata\<close>). The \<^verbatim>\<open>dev_info\<close> line, the delay and the
  deassertion of the TPM reset acquire and release nothing and are not logged.
\<close>

datatype s96_event =
    Ls_get_gpiod ls_gpio
  | Ls_put_gpiod "ls_gpio option"
  | Platform_device_register
  | Platform_device_unregister
  | I2c_new_device i2c_chip "ls_gpio option"
  | I2c_unregister_device "i2c_chip option"
  | Spi_new_device
  | Spi_unregister_device
  | Dev_err string

record secure96 =
  secure96_leds :: "ls_gpio option list"
  leds_device :: bool
  eeprom :: "i2c_chip option"
  crypto :: "i2c_chip option"
  hash :: "i2c_chip option"
  tpm_reset :: "ls_gpio option"
  tpm_irq :: "ls_gpio option"
  tpm :: bool

text \<open>\<^verbatim>\<open>ledinfos\<close>: GPIO-F, G, H and I are connected to LEDs.\<close>

definition ledinfos :: "(ls_gpio \<times> string) list" where
  "ledinfos =
     [(LS_GPIO_F, ''secure96:red:0''), (LS_GPIO_G, ''secure96:red:1''),
      (LS_GPIO_H, ''secure96:green:0''), (LS_GPIO_I, ''secure96:green:1'')]"

text \<open>
  The outcome of every call into the rest of the kernel that \<^verbatim>\<open>secure96_probe\<close>
  makes: the two \<^verbatim>\<open>devm_kzalloc\<close> calls, \<^verbatim>\<open>devm_gpiod_get_index\<close> on a line
  (through \<^verbatim>\<open>ls_get_gpiod\<close>), \<^verbatim>\<open>platform_device_register_data\<close>,
  \<^verbatim>\<open>i2c_new_device\<close> on a board info and \<^verbatim>\<open>spi_new_device\<close>.
\<close>

record s96_env =
  sec_alloc :: bool
  leds_alloc :: bool
  gpio_avail :: "ls_gpio \<Rightarrow> bool"
  leds_device_ok :: bool
  i2c_ok :: "i2c_chip \<Rightarrow> bool"
  spi_ok :: bool

text \<open>
  The state the driver works on: the \<^verbatim>\<open>struct secure96\<close> that the probe fills
  in and that the driver data of the device points to once the probe has succeeded, the
  module-global \<^verbatim>\<open>secure96_eeprom_pdata.wp_gpiod\<close> (NULL when the module is
  loaded), whether the driver data of the device is set, and the log of calls.
\<close>

record s96_state =
  sec :: secure96
  wp_gpiod :: "ls_gpio option"
  drvdata_set :: bool
  events :: "s96_event list"

definition zeroed_sec :: secure96 where
  "zeroed_sec =
     \<lparr>secure96_leds = [], leds_device = False, eeprom = None, crypto = None,
      hash = None, tpm_reset = None, tpm_irq = None, tpm = False\<rparr>"

definition module_init :: s96_state where
  "module_init = \<lparr>sec = zeroed_sec, wp_gpiod = None, drvdata_set = False, events = []\<rparr>"

definition emit :: "s96_event \<Rightarrow> s96_state \<Rightarrow> s96_state" where
  "emit e s = s\<lparr>events := events s @ [e]\<rparr>"

text \<open>
  \<^verbatim>\<open>ls_get_gpiod\<close> (connector driver): \<^verbatim>\<open>devm_gpiod_get_index\<close> on the parent,
  an error pointer when the line cannot be had.
\<close>

definition ls_get_gpiod :: "s96_env \<Rightarrow> ls_gpio \<Rightarrow> s96_state \<Rightarrow> ls_gpio option \<times> s96_state" where
  "ls_get_gpiod env pin s =
     (if gpio_avail env pin then (Some pin, emit (Ls_get_gpiod pin) s) else (None, s))"

definition ls_put_gpiod :: "ls_gpio option \<Rightarrow> s96_state \<Rightarrow> s96_state" where
  "ls_put_gpiod gpiod s = emit (Ls_put_gpiod gpiod) s"

text \<open>The loop \<^verbatim>\<open>for (i = 0; i < ARRAY_SIZE(ledinfos); i++)\<close> of the probe.\<close>

fun populate_leds ::
  "s96_env \<Rightarrow> (ls_gpio \<times> string) list \<Rightarrow> nat \<Rightarrow> s96_state \<Rightarrow> errno option \<times> s96_state" where
  "populate_leds env [] i s = (None, s)"
| "populate_leds env (linfo # rest) i s =
     (case ls_get_gpiod env (fst linfo) s of
        (None, s1) \<Rightarrow> (Some ENODEV, emit (Dev_err ''failed to get GPIO line'') s1)
      | (Some gpiod, s1) \<Rightarrow>
          populate_leds env rest (Suc i)
            (s1\<lparr>sec := (sec s1)\<lparr>secure96_leds := (secure96_leds (sec s1))[i := Some gpiod]\<rparr>\<rparr>))"

text \<open>The loop \<^verbatim>\<open>for (i = 0; ...) ls_put_gpiod(ls, sec->secure96_leds[i].gpiod)\<close>.\<close>

fun put_leds :: "ls_gpio option list \<Rightarrow> s96_state \<Rightarrow> s96_state" where
  "put_leds [] s = s"
| "put_leds (g # gs) s = put_leds gs (ls_put_gpiod g s)"

text \<open>The cleanup labels of \<^verbatim>\<open>secure96_probe\<close>; each falls through to the next.\<close>

definition out_unreg_leds :: "s96_state \<Rightarrow> s96_state" where
  "out_unreg_leds s =
     put_leds (secure96_leds (sec s)) (emit Platform_device_unregister s)"

definition out_remove_eeprom :: "s96_state \<Rightarrow> s96_state" where
  "out_remove_eeprom s =
     (let s1 = emit (I2c_unregister_device (eeprom (sec s))) s;
          s2 = (if wp_gpiod s1 \<noteq> None then ls_put_gpiod (wp_gpiod s1) s1 else s1)
      in out_unreg_leds s2)"

definition out_remove_crypto :: "s96_state \<Rightarrow> s96_state" where
  "out_remove_crypto s = out_remove_eeprom (emit (I2c_unregister_device (crypto (sec s))) s)"

definition out_remove_hash :: "s96_state \<Rightarrow> s96_state" where
  "out_remove_hash s = out_remove_crypto (emit (I2c_unregister_device (hash (sec s))) s)"

definition out_remove_tpm_reset :: "s96_state \<Rightarrow> s96_state" where
  "out_remove_tpm_reset s = out_remove_hash (ls_put_gpiod (tpm_reset (sec s)) s)"

definition out_remove_tpm_irq :: "s96_state \<Rightarrow> s96_state" where
  "out_remove_tpm_irq s = out_remove_tpm_reset (ls_put_gpiod (tpm_irq (sec s)) s)"

text \<open>\<^verbatim>\<open>i2c_new_device\<close>: NULL when the client cannot be created.\<close>

definition i2c_new_device :: "s96_env \<Rightarrow> i2c_chip \<Rightarrow> s96_state \<Rightarrow> i2c_chip option \<times> s96_state" where
  "i2c_new_device env chip s =
     (if i2c_ok env chip
      then (Some chip, emit (I2c_new_device chip (if chip = Eeprom then wp_gpiod s else None)) s)
      else (None, s))"

text \<open>
  The part of \<^verbatim>\<open>secure96_probe\<close> from the TPM reset line on. The source tests
  \<^verbatim>\<open>IS_ERR(gpiod)\<close> twice and \<^verbatim>\<open>!sec->tpm\<close> once.
\<close>

definition probe_tpm :: "s96_env \<Rightarrow> s96_state \<Rightarrow> errno option \<times> s96_state" where
  "probe_tpm env s =
     (case ls_get_gpiod env LS_GPIO_D s of
        (None, s1) \<Rightarrow>
          (Some ENODEV, out_remove_hash (emit (Dev_err ''failed to get TPM RESET'') s1))
      | (Some rst, s1) \<Rightarrow>
          let s2 = s1\<lparr>sec := (sec s1)\<lparr>tpm_reset := Some rst\<rparr>\<rparr> in
          (case ls_get_gpiod env LS_GPIO_C s2 of
             (None, s3) \<Rightarrow>
               (Some ENODEV,
                out_remove_tpm_reset (emit (Dev_err ''failed to get TPM IRQ GPIO'') s3))
           | (Some irq, s3) \<Rightarrow>
               let s4 = s3\<lparr>sec := (sec s3)\<lparr>tpm_irq := Some irq\<rparr>\<rparr> in
               if \<not> spi_ok env
               then (Some ENODEV,
                     out_remove_tpm_irq (emit (Dev_err ''failed to populate TPM device'') s4))
               else
                 let s5 = emit Spi_new_device (s4\<lparr>sec := (sec s4)\<lparr>tpm := True\<rparr>\<rparr>)
                 in (None, s5\<lparr>drvdata_set := True\<rparr>)))"

text \<open>
  The three I2C0 devices. After creating the crypto and the hash client the source tests
  \<^verbatim>\<open>!sec->eeprom\<close> again, not the pointer it has just stored; the model tests
  what the source tests.
\<close>

definition probe_i2c :: "s96_env \<Rightarrow> s96_state \<Rightarrow> errno option \<times> s96_state" where
  "probe_i2c env s =
     (let s1 = (case ls_get_gpiod env LS_GPIO_B s of
                  (None, t) \<Rightarrow> emit (Dev_err ''no CAT21M01 write-protect GPIO'') t
                | (Some gpiod, t) \<Rightarrow> t\<lparr>wp_gpiod := Some gpiod\<rparr>);
          (e, s2) = i2c_new_device env Eeprom s1;
          s3 = s2\<lparr>sec := (sec s2)\<lparr>eeprom := e\<rparr>\<rparr>
      in if eeprom (sec s3) = None
         then (Some ENODEV, out_unreg_leds (emit (Dev_err ''failed to populate EEPROM'') s3))
         else
           let (c, s4) = i2c_new_device env Crypto s3;
               s5 = s4\<lparr>sec := (sec s4)\<lparr>crypto := c\<rparr>\<rparr>
           in if eeprom (sec s5) = None
              then (Some ENODEV,
                    out_remove_eeprom (emit (Dev_err ''failed to populate crypto device'') s5))
              else
                let (h, s6) = i2c_new_device env Hash s5;
                    s7 = s6\<lparr>sec := (sec s6)\<lparr>hash := h\<rparr>\<rparr>
                in if eeprom (sec s7) = None
                   then (Some ENODEV,
                         out_remove_crypto (emit (Dev_err ''failed to populate hash device'') s7))
                   else probe_tpm env s7)"

text \<open>
  \<^verbatim>\<open>secure96_probe\<close>. The result is the return value (\<open>None\<close> is 0) and the state
  left behind. The struct and the LED array come zeroed from \<^verbatim>\<open>devm_kzalloc\<close>.
\<close>

definition secure96_probe :: "s96_env \<Rightarrow> s96_state \<Rightarrow> errno option \<times> s96_state" where
  "secure96_probe env s0 =
     (if \<not> sec_alloc env then (Some ENOMEM, s0)
      else
        let s = s0\<lparr>sec := zeroed_sec\<rparr> in
        if \<not> leds_alloc env then (Some ENOMEM, s)
        else
          let s = s\<lparr>sec := (sec s)\<lparr>secure96_leds := replicate (length ledinfos) None\<rparr>\<rparr> in
          (case populate_leds env ledinfos 0 s of
             (Some err, s1) \<Rightarrow> (Some err, s1)
           | (None, s1) \<Rightarrow>
               if \<not> leds_device_ok env
               then (Some ENODEV, emit (Dev_err ''failed to populate LEDs device'') s1)
               else
                 probe_i2c env
                   (emit Platform_device_register (s1\<lparr>sec := (sec s1)\<lparr>leds_device := True\<rparr>\<rparr>))))"

text \<open>
  \<^verbatim>\<open>secure96_remove\<close>. The driver data is read first and used without a test, so a
  device whose driver data is NULL makes the callback fault.
\<close>

definition secure96_remove :: "s96_state \<Rightarrow> fault + s96_state" where
  "secure96_remove s =
     (if \<not> drvdata_set s then Inl Null_deref
      else
        let s1 = emit Spi_unregister_device s;
            s2 = ls_put_gpiod (tpm_irq (sec s1)) s1;
            s3 = ls_put_gpiod (tpm_reset (sec s2)) s2;
            s4 = emit (I2c_unregister_device (hash (sec s3))) s3;
            s5 = emit (I2c_unregister_device (crypto (sec s4))) s4;
            s6 = emit (I2c_unregister_device (eeprom (sec s5))) s5;
            s7 = (if wp_gpiod s6 \<noteq> None then ls_put_gpiod (wp_gpiod s6) s6 else s6);
            s8 = emit Platform_device_unregister s7;
            s9 = put_leds (secure96_leds (sec s8)) s8
        in Inr (s9\<lparr>drvdata_set := False\<rparr>))"


subsection \<open>Resources acquired and released in a log\<close>

datatype resource = Gpio ls_gpio | Leds_device | I2c i2c_chip | Spi_tpm

fun acquired_by :: "s96_event \<Rightarrow> resource list" where
  "acquired_by (Ls_get_gpiod pin) = [Gpio pin]"
| "acquired_by Platform_device_register = [Leds_device]"
| "acquired_by (I2c_new_device chip wp) = [I2c chip]"
| "acquired_by Spi_new_device = [Spi_tpm]"
| "acquired_by e = []"

fun released_by :: "s96_event \<Rightarrow> resource list" where
  "released_by (Ls_put_gpiod (Some pin)) = [Gpio pin]"
| "released_by Platform_device_unregister = [Leds_device]"
| "released_by (I2c_unregister_device (Some chip)) = [I2c chip]"
| "released_by Spi_unregister_device = [Spi_tpm]"
| "released_by e = []"

definition acquired :: "s96_state \<Rightarrow> resource list" where
  "acquired s = concat (map acquired_by (events s))"

definition released :: "s96_state \<Rightarrow> resource list" where
  "released s = concat (map released_by (events s))"

text \<open>
  The environment in which exactly the resources satisfying \<open>ok\<close> can be had, and the
  one in which everything but the resources of a list can.
\<close>

definition env_of :: "(resource \<Rightarrow> bool) \<Rightarrow> s96_env" where
  "env_of ok =
     \<lparr>sec_alloc = True, leds_alloc = True, gpio_avail = (\<lambda>pin. ok (Gpio pin)),
      leds_device_ok = ok Leds_device, i2c_ok = (\<lambda>chip. ok (I2c chip)),
      spi_ok = ok Spi_tpm\<rparr>"

definition env_without :: "resource list \<Rightarrow> s96_env" where
  "env_without rs = env_of (\<lambda>x. x \<notin> set rs)"

text \<open>
  The acquisition sequence as the specification words it, and the rollback it asks for
  when the step at (zero-based) position \<open>k\<close> fails: the resources before \<open>k\<close>,
  last acquired first released.
\<close>

definition acquisition_sequence :: "resource list" where
  "acquisition_sequence =
     [Gpio LS_GPIO_F, Gpio LS_GPIO_G, Gpio LS_GPIO_H, Gpio LS_GPIO_I, Leds_device,
      Gpio LS_GPIO_B, I2c Eeprom, I2c Crypto, I2c Hash, Gpio LS_GPIO_D, Gpio LS_GPIO_C,
      Spi_tpm]"

definition spec_rollback :: "nat \<Rightarrow> resource list" where
  "spec_rollback k = rev (take k acquisition_sequence)"


text \<open>Names used in the statements about the probe.\<close>

definition leds_ready :: "s96_env \<Rightarrow> bool" where
  "leds_ready env \<longleftrightarrow>
     sec_alloc env \<and> leds_alloc env \<and> (\<forall>pin \<in> fst ` set ledinfos. gpio_avail env pin)
     \<and> leds_device_ok env"

definition wp_held :: "s96_env \<Rightarrow> resource list" where
  "wp_held env = (if gpio_avail env LS_GPIO_B then [Gpio LS_GPIO_B] else [])"

definition led_group :: "resource list" where
  "led_group = Leds_device # map (Gpio \<circ> fst) ledinfos"

definition released_exactly :: "s96_state \<Rightarrow> bool" where
  "released_exactly s \<longleftrightarrow> distinct (released s) \<and> set (released s) = set (acquired s)"

text \<open>The state in which the I2C part starts when the LEDs could all be had.\<close>

definition leds_populated :: "s96_state \<Rightarrow> s96_state" where
  "leds_populated s0 =
     s0\<lparr>sec := zeroed_sec\<lparr>secure96_leds := map (Some \<circ> fst) ledinfos, leds_device := True\<rparr>,
        events := events s0 @ map (Ls_get_gpiod \<circ> fst) ledinfos @ [Platform_device_register]\<rparr>"

section \<open>The low-speed connector driver\<close>

text \<open>
  A device-tree node is named by its path, the connector's platform device by its name,
  an I2C adapter and an SPI controller by their bus numbers.
\<close>

type_synonym node = string
type_synonym device = string
type_synonym i2c_adapter = nat
type_synonym spi_controller = nat

record ls_connector =
  con_dev :: device
  con_i2c0 :: "i2c_adapter option"
  con_i2c1 :: "i2c_adapter option"
  con_spi :: "spi_controller option"

text \<open>Of \<^verbatim>\<open>struct ls_driver\<close>: the name and whether a remove callback is set.\<close>

record ls_driver =
  drv_name :: string
  drv_has_remove :: bool

text \<open>
  \<^verbatim>\<open>struct ls_device\<close>, with the name of the embedded \<^verbatim>\<open>struct device\<close>, its
  device-tree node, its parent and the driver the core has bound to it.
\<close>

record ls_device =
  dev_id :: nat
  dev_name :: string
  dev_of_node :: "node option"
  dev_parent :: device
  dev_i2c0 :: "i2c_adapter option"
  dev_i2c1 :: "i2c_adapter option"
  dev_spi :: "spi_controller option"
  dev_driver :: "ls_driver option"

text \<open>
  What the connector driver does to the rest of the kernel, in order. A lookup is logged
  when it is made, a reference when it is taken, a put with the pointer it is given.
\<close>

datatype ls_event =
    Ev_dev_err string
  | Ev_dev_info string
  | Ev_of_parse_phandle string
  | Ev_i2c_lookup node
  | Ev_i2c_get i2c_adapter
  | Ev_i2c_put "i2c_adapter option"
  | Ev_spi_lookup node
  | Ev_spi_get spi_controller
  | Ev_spi_put "spi_controller option"
  | Ev_set_dev_root "device option"
  | Ev_create_file string
  | Ev_driver_remove string nat
  | Ev_device_del nat

text \<open>
  The bus \<^verbatim>\<open>ls_bus_type\<close> with its registered drivers, its devices (in the order
  they were added), its \<^verbatim>\<open>dev_root\<close> and attribute files; the driver data of the
  platform devices; the allocator \<^verbatim>\<open>ls_device_ida\<close> as the list of ids in use.
\<close>

record bus_state =
  bus_drivers :: "ls_driver list"
  bus_devices :: "ls_device list"
  bus_dev_root :: "device option"
  bus_files :: "string list"
  plat_drvdata :: "device \<Rightarrow> ls_connector option"
  ls_device_ida :: "nat list"
  bus_log :: "ls_event list"

definition boot_state :: "ls_driver list \<Rightarrow> bus_state" where
  "boot_state drvs =
     \<lparr>bus_drivers = drvs, bus_devices = [], bus_dev_root = None, bus_files = [],
      plat_drvdata = (\<lambda>d. None), ls_device_ida = [], bus_log = []\<rparr>"

definition logged :: "ls_event \<Rightarrow> bus_state \<Rightarrow> bus_state" where
  "logged e s = s\<lparr>bus_log := bus_log s @ [e]\<rparr>"

subsection \<open>The id allocator\<close>

text \<open>
  Modelled from the spec: the IDA (\<^verbatim>\<open>ida_simple_get\<close>, \<^verbatim>\<open>ida_simple_remove\<close>,
  lib/idr.c) is not among the sources. The specification has ids that are non-negative,
  densely allocated and reused after release, taken as the next free id of a pool, with
  a defined error when the pool is exhausted. \<open>least_free ida i\<close> is the first id
  from \<open>i\<close> on that is not in use; the pool of \<^verbatim>\<open>ida_simple_get(ida, 0, 0, gfp)\<close>
  ends at \<^verbatim>\<open>INT_MAX\<close>.
\<close>

function least_free :: "nat list \<Rightarrow> nat \<Rightarrow> nat" where
  "least_free ida i = (if i \<in> set ida then least_free ida (Suc i) else i)"
  by pat_completeness auto
termination
proof (relation "measure (\<lambda>(ida, i). Suc (Max (set ida)) - i)")
  show "wf (measure (\<lambda>(ida, i). Suc (Max (set ida)) - i))" by simp
next
  fix ida :: "nat list" and i
  assume "i \<in> set ida"
  then have "i \<le> Max (set ida)" by simp
  then show "((ida, Suc i), (ida, i)) \<in> measure (\<lambda>(ida, i). Suc (Max (set ida)) - i)"
    by simp
qed

declare least_free.simps [simp del]

definition INT_MAX :: nat where
  "INT_MAX = 2147483647"

definition ida_simple_get :: "bool \<Rightarrow> nat list \<Rightarrow> (errno + nat) \<times> nat list" where
  "ida_simple_get mem ida =
     (if \<not> mem then (Inl ENOMEM, ida)
      else let i = least_free ida 0
           in if INT_MAX < i then (Inl ENOSPC, ida) else (Inr i, i # ida))"

definition ida_simple_remove :: "nat \<Rightarrow> nat list \<Rightarrow> nat list" where
  "ida_simple_remove i ida = removeAll i ida"

subsection \<open>Creating and destroying devices\<close>

text \<open>The \<^verbatim>\<open>%d\<close> of \<^verbatim>\<open>dev_set_name\<close> on a non-negative id.\<close>

definition digit :: "nat \<Rightarrow> char" where
  "digit d = ''0123456789'' ! d"

fun decimal :: "nat \<Rightarrow> string" where
  "decimal n = (if n < 10 then [digit n] else decimal (n div 10) @ [digit (n mod 10)])"

declare decimal.simps [simp del]

text \<open>
  The outcome of the calls one \<^verbatim>\<open>lscon_add_device\<close> makes: \<^verbatim>\<open>kzalloc\<close>, the
  memory the allocator may need, the return value of \<^verbatim>\<open>device_add\<close> (\<open>None\<close> is
  0) and the driver the core binds to the device while adding it, if any.
\<close>

record create_env =
  ce_kzalloc :: bool
  ce_ida_mem :: bool
  ce_device_add :: "errno option"
  ce_bound :: "ls_driver option"

text \<open>
  \<^verbatim>\<open>lscon_add_device\<close>. The return value is \<open>None\<close> for 0. The name is set before
  \<^verbatim>\<open>device_add\<close>; when \<^verbatim>\<open>device_add\<close> fails the function returns without
  giving the id back. A successful \<^verbatim>\<open>device_add\<close> (driver core, not among the
  sources) puts the device at the end of the bus's list, bound to the driver the core
  has chosen, if any.
\<close>

definition lscon_add_device ::
  "create_env \<Rightarrow> ls_connector \<Rightarrow> string option \<Rightarrow> node option \<Rightarrow> bus_state
     \<Rightarrow> errno option \<times> bus_state" where
  "lscon_add_device ce ls name np s =
     (if \<not> ce_kzalloc ce then (Some ENOMEM, s)
      else
        (case ida_simple_get (ce_ida_mem ce) (ls_device_ida s) of
           (Inl err, ida) \<Rightarrow> (Some err, s\<lparr>ls_device_ida := ida\<rparr>)
         | (Inr i, ida) \<Rightarrow>
             (let s1 = s\<lparr>ls_device_ida := ida\<rparr>;
                  lsdev =
                    \<lparr>dev_id = i,
                     dev_name = (case name of Some n \<Rightarrow> n | None \<Rightarrow> ''mezzanine'' @ decimal i),
                     dev_of_node = np, dev_parent = con_dev ls, dev_i2c0 = con_i2c0 ls,
                     dev_i2c1 = con_i2c1 ls, dev_spi = con_spi ls, dev_driver = None\<rparr>
              in (case ce_device_add ce of
                    Some err \<Rightarrow> (Some err, logged (Ev_dev_err ''failed to add device'') s1)
                  | None \<Rightarrow>
                      (None,
                       s1\<lparr>bus_devices :=
                            bus_devices s1 @ [lsdev\<lparr>dev_driver := ce_bound ce\<rparr>]\<rparr>)))))"

text \<open>\<^verbatim>\<open>ls_driver_remove\<close>: the driver's remove callback, when it has one.\<close>

definition ls_driver_remove :: "ls_driver \<Rightarrow> ls_device \<Rightarrow> bus_state \<Rightarrow> bus_state" where
  "ls_driver_remove lsdrv lsdev s =
     (if drv_has_remove lsdrv then logged (Ev_driver_remove (drv_name lsdrv) (dev_id lsdev)) s
      else s)"

text \<open>
  Modelled from the spec: \<^verbatim>\<open>device_del\<close> (drivers/base/core.c) is not among the
  sources. Destroying a device unbinds it, which invokes the bound driver's remove
  callback, and takes it off the bus.
\<close>

definition device_del :: "ls_device \<Rightarrow> bus_state \<Rightarrow> bus_state" where
  "device_del lsdev s =
     (let s1 = (case dev_driver lsdev of None \<Rightarrow> s | Some lsdrv \<Rightarrow> ls_driver_remove lsdrv lsdev s)
      in logged (Ev_device_del (dev_id lsdev)) (s1\<lparr>bus_devices := remove1 lsdev (bus_devices s1)\<rparr>))"

definition lscon_del_device :: "ls_device \<Rightarrow> bus_state \<Rightarrow> bus_state" where
  "lscon_del_device lsdev s =
     (let s1 = device_del lsdev s
      in s1\<lparr>ls_device_ida := ida_simple_remove (dev_id lsdev) (ls_device_ida s1)\<rparr>)"


subsection \<open>Attaching the connector\<close>

text \<open>
  The outcome of the calls \<^verbatim>\<open>lscon_probe\<close> makes: \<^verbatim>\<open>devm_kzalloc\<close>,
  \<^verbatim>\<open>of_parse_phandle\<close> on a property of the connector's node,
  \<^verbatim>\<open>of_get_i2c_adapter_by_node\<close>, \<^verbatim>\<open>of_find_spi_controller_by_node\<close>, whether
  \<^verbatim>\<open>spi_controller_get\<close> returns the controller, the return value of
  \<^verbatim>\<open>bus_create_file\<close> on an attribute, and the available children of the node, each
  with the outcome of its \<^verbatim>\<open>lscon_add_device\<close>.
\<close>

record probe_env =
  pe_kzalloc :: bool
  pe_phandle :: "string \<Rightarrow> node option"
  pe_i2c_adapter :: "node \<Rightarrow> i2c_adapter option"
  pe_spi_controller :: "node \<Rightarrow> spi_controller option"
  pe_spi_get :: bool
  pe_create_file :: "string \<Rightarrow> errno option"
  pe_children :: "(node \<times> create_env) list"

definition of_parse_phandle :: "probe_env \<Rightarrow> string \<Rightarrow> bus_state \<Rightarrow> node option \<times> bus_state" where
  "of_parse_phandle env prop s = (pe_phandle env prop, logged (Ev_of_parse_phandle prop) s)"

definition of_get_i2c_adapter_by_node ::
  "probe_env \<Rightarrow> node \<Rightarrow> bus_state \<Rightarrow> i2c_adapter option \<times> bus_state" where
  "of_get_i2c_adapter_by_node env child s =
     (case pe_i2c_adapter env child of
        None \<Rightarrow> (None, logged (Ev_i2c_lookup child) s)
      | Some a \<Rightarrow> (Some a, logged (Ev_i2c_get a) (logged (Ev_i2c_lookup child) s)))"

definition of_find_spi_controller_by_node ::
  "probe_env \<Rightarrow> node \<Rightarrow> bus_state \<Rightarrow> spi_controller option \<times> bus_state" where
  "of_find_spi_controller_by_node env child s =
     (pe_spi_controller env child, logged (Ev_spi_lookup child) s)"

definition spi_controller_get ::
  "probe_env \<Rightarrow> spi_controller \<Rightarrow> bus_state \<Rightarrow> spi_controller option \<times> bus_state" where
  "spi_controller_get env spi s =
     (if pe_spi_get env then (Some spi, logged (Ev_spi_get spi) s) else (None, s))"

definition bus_create_file :: "probe_env \<Rightarrow> string \<Rightarrow> bus_state \<Rightarrow> errno option \<times> bus_state" where
  "bus_create_file env attr s =
     (case pe_create_file env attr of
        Some err \<Rightarrow> (Some err, s)
      | None \<Rightarrow> (None, logged (Ev_create_file attr) (s\<lparr>bus_files := bus_files s @ [attr]\<rparr>)))"

text \<open>The two cleanup labels of \<^verbatim>\<open>lscon_probe\<close>; the first falls through to the second.\<close>

definition out_put_i2c0 :: "ls_connector \<Rightarrow> bus_state \<Rightarrow> bus_state" where
  "out_put_i2c0 ls s = logged (Ev_i2c_put (con_i2c0 ls)) s"

definition out_put_i2c1 :: "ls_connector \<Rightarrow> bus_state \<Rightarrow> bus_state" where
  "out_put_i2c1 ls s = out_put_i2c0 ls (logged (Ev_i2c_put (con_i2c1 ls)) s)"

text \<open>
  The loop \<^verbatim>\<open>for_each_available_child_of_node(np, child) lscon_add_device(ls, NULL, child)\<close>:
  the value \<^verbatim>\<open>lscon_add_device\<close> returns is not looked at.
\<close>

fun add_children :: "(node \<times> create_env) list \<Rightarrow> ls_connector \<Rightarrow> bus_state \<Rightarrow> bus_state" where
  "add_children [] ls s = s"
| "add_children (c # cs) ls s =
     add_children cs ls (snd (lscon_add_device (snd c) ls None (Some (fst c)) s))"

text \<open>\<^verbatim>\<open>lscon_probe\<close> from \<^verbatim>\<open>platform_set_drvdata\<close> on.\<close>

definition lscon_probe_bus ::
  "probe_env \<Rightarrow> device \<Rightarrow> ls_connector \<Rightarrow> bus_state \<Rightarrow> errno option \<times> bus_state" where
  "lscon_probe_bus env pdev ls s =
     (let s1 = s\<lparr>plat_drvdata := (plat_drvdata s)(pdev := Some ls)\<rparr>;
          s2 = logged (Ev_set_dev_root (Some pdev)) (s1\<lparr>bus_dev_root := Some pdev\<rparr>)
      in case bus_create_file env ''supported'' s2 of
           (Some ret, s3) \<Rightarrow> (Some ret, out_put_i2c1 ls s3)
         | (None, s3) \<Rightarrow>
             (case bus_create_file env ''inject'' s3 of
                (Some ret, s4) \<Rightarrow> (Some ret, out_put_i2c1 ls s4)
              | (None, s4) \<Rightarrow>
                  (case bus_create_file env ''eject'' s4 of
                     (Some ret, s5) \<Rightarrow> (Some ret, out_put_i2c1 ls s5)
                   | (None, s5) \<Rightarrow> (None, add_children (pe_children env) ls s5))))"

text \<open>The SPI bus of \<^verbatim>\<open>lscon_probe\<close>.\<close>

definition lscon_probe_spi ::
  "probe_env \<Rightarrow> device \<Rightarrow> ls_connector \<Rightarrow> bus_state \<Rightarrow> errno option \<times> bus_state" where
  "lscon_probe_spi env pdev ls s =
     (case of_parse_phandle env ''spi'' s of
        (None, s1) \<Rightarrow> (Some ENODEV, out_put_i2c1 ls (logged (Ev_dev_err ''no spi phandle'') s1))
      | (Some child, s1) \<Rightarrow>
          (case of_find_spi_controller_by_node env child s1 of
             (None, s2) \<Rightarrow>
               (Some EPROBE_DEFER,
                out_put_i2c1 ls (logged (Ev_dev_err ''no spi controller, deferring'') s2))
           | (Some spi, s2) \<Rightarrow>
               (case spi_controller_get env spi s2 of
                  (None, s3) \<Rightarrow>
                    (Some ENODEV, out_put_i2c1 ls (logged (Ev_dev_err ''no spi reference'') s3))
                | (Some ctlr, s3) \<Rightarrow> lscon_probe_bus env pdev (ls\<lparr>con_spi := Some ctlr\<rparr>) s3)))"

text \<open>
  The second I2C bus of \<^verbatim>\<open>lscon_probe\<close>. The message for a missing adapter names
  i2c0 in the source as well.
\<close>

definition lscon_probe_i2c1 ::
  "probe_env \<Rightarrow> device \<Rightarrow> ls_connector \<Rightarrow> bus_state \<Rightarrow> errno option \<times> bus_state" where
  "lscon_probe_i2c1 env pdev ls s =
     (case of_parse_phandle env ''i2c1'' s of
        (None, s1) \<Rightarrow> (Some ENODEV, out_put_i2c0 ls (logged (Ev_dev_err ''no i2c1 phandle'') s1))
      | (Some child, s1) \<Rightarrow>
          (case of_get_i2c_adapter_by_node env child s1 of
             (None, s2) \<Rightarrow>
               (Some EPROBE_DEFER,
                out_put_i2c0 ls (logged (Ev_dev_err ''no i2c0 adapter, deferring'') s2))
           | (Some a, s2) \<Rightarrow> lscon_probe_spi env pdev (ls\<lparr>con_i2c1 := Some a\<rparr>) s2))"

text \<open>\<^verbatim>\<open>lscon_probe\<close>: the return value (\<open>None\<close> is 0) and the state left behind.\<close>

definition lscon_probe :: "probe_env \<Rightarrow> device \<Rightarrow> bus_state \<Rightarrow> errno option \<times> bus_state" where
  "lscon_probe env pdev s =
     (if \<not> pe_kzalloc env then (Some ENOMEM, s)
      else
        let ls = \<lparr>con_dev = pdev, con_i2c0 = None, con_i2c1 = None, con_spi = None\<rparr> in
        case of_parse_phandle env ''i2c0'' s of
          (None, s1) \<Rightarrow> (Some ENODEV, logged (Ev_dev_err ''no i2c0 phandle'') s1)
        | (Some child, s1) \<Rightarrow>
            (case of_get_i2c_adapter_by_node env child s1 of
               (None, s2) \<Rightarrow>
                 (Some EPROBE_DEFER, logged (Ev_dev_err ''no i2c0 adapter, deferring'') s2)
             | (Some a, s2) \<Rightarrow> lscon_probe_i2c1 env pdev (ls\<lparr>con_i2c0 := Some a\<rparr>) s2))"

subsection \<open>Detaching the connector\<close>

text \<open>
  \<^verbatim>\<open>bus_for_each_dev(&ls_bus_type, NULL, NULL, lscon_del_dev)\<close>: the callback returns
  0, so the walk goes over every device that was on the bus.
\<close>

fun bus_for_each_dev :: "ls_device list \<Rightarrow> bus_state \<Rightarrow> bus_state" where
  "bus_for_each_dev [] s = s"
| "bus_for_each_dev (d # ds) s = bus_for_each_dev ds (lscon_del_device d s)"

text \<open>
  \<^verbatim>\<open>lscon_remove\<close>. The driver data is used without a test, so the callback faults
  when the platform device has none.
\<close>

definition lscon_remove :: "device \<Rightarrow> bus_state \<Rightarrow> fault + bus_state" where
  "lscon_remove pdev s =
     (let s1 = bus_for_each_dev (bus_devices s) s;
          s2 = logged (Ev_set_dev_root None) (s1\<lparr>bus_dev_root := None\<rparr>)
      in case plat_drvdata s pdev of
           None \<Rightarrow> Inl Null_deref
         | Some ls \<Rightarrow>
             Inr (logged (Ev_i2c_put (con_i2c0 ls))
                   (logged (Ev_i2c_put (con_i2c1 ls))
                     (logged (Ev_spi_put (con_spi ls)) s2))))"

subsection \<open>The inject and eject attributes\<close>

text \<open>
  Modelled from the spec: \<^verbatim>\<open>kstrdup\<close>, \<^verbatim>\<open>strstrip\<close>, \<^verbatim>\<open>isspace\<close> and
  \<^verbatim>\<open>kfree\<close> (mm/util.c, lib/string.c, lib/ctype.c, the slab allocator) are not
  among the sources. A \<^verbatim>\<open>char *\<close> into a copy is its distance from the start of
  the allocation together with the string it points at. The copy of a C string ends at its first NUL
  and the pointer \<^verbatim>\<open>kstrdup\<close> returns is the start of the allocation. Stripping
  cuts the trailing whitespace off in place and returns a pointer to the first character
  that is not whitespace: the pointer it was given only when the string does not begin
  with whitespace (or is nothing but whitespace). \<^verbatim>\<open>kfree\<close> takes the start of an
  allocation; \<open>kfree p r\<close> is the outcome \<open>r\<close> of the call when \<open>p\<close> is one, and
  the fault otherwise.
\<close>

type_synonym char_ptr = "nat \<times> string"

definition kstrdup :: "string \<Rightarrow> char_ptr" where
  "kstrdup buf = (0, takeWhile (\<lambda>c. c \<noteq> CHR 0x00) buf)"

definition isspace :: "char \<Rightarrow> bool" where
  "isspace c \<longleftrightarrow> c \<in> set [CHR 0x20, CHR 0x09, CHR 0x0A, CHR 0x0B, CHR 0x0C, CHR 0x0D, CHR 0xA0]"

definition strstrip :: "char_ptr \<Rightarrow> char_ptr" where
  "strstrip p =
     (let cut = rev (dropWhile isspace (rev (snd p)))
      in (fst p + length (takeWhile isspace cut), dropWhile isspace cut))"

definition kfree :: "char_ptr \<Rightarrow> 'a \<Rightarrow> fault + 'a" where
  "kfree p r = (if fst p = 0 then Inr r else Inl Bad_free)"

text \<open>\<^verbatim>\<open>ls_inject_match\<close>: 1 when the string is the driver's name.\<close>

definition ls_inject_match :: "string \<Rightarrow> ls_driver \<Rightarrow> int" where
  "ls_inject_match devname drv = (if devname = drv_name drv then 1 else 0)"

text \<open>\<^verbatim>\<open>bus_for_each_drv\<close>: stops at the first driver for which the callback is not 0.\<close>

fun bus_for_each_drv :: "ls_driver list \<Rightarrow> (ls_driver \<Rightarrow> int) \<Rightarrow> int" where
  "bus_for_each_drv [] fn = 0"
| "bus_for_each_drv (drv # drvs) fn =
     (let error = fn drv in if error \<noteq> 0 then error else bus_for_each_drv drvs fn)"

text \<open>
  Modelled from the spec: \<^verbatim>\<open>bus_find_device_by_name\<close> (drivers/base/bus.c) is not
  among the sources. It looks up the live device whose name equals the string.
\<close>

definition bus_find_device_by_name :: "ls_device list \<Rightarrow> string \<Rightarrow> ls_device option" where
  "bus_find_device_by_name devs devname = find (\<lambda>d. dev_name d = devname) devs"

text \<open>
  Modelled from the spec: \<^verbatim>\<open>dev_get_drvdata\<close> (include/linux/device.h) is not among
  the sources. It reads a field of the device it is given, so it faults on NULL.
\<close>

definition dev_get_drvdata :: "bus_state \<Rightarrow> device option \<Rightarrow> fault + ls_connector option" where
  "dev_get_drvdata s dev = (case dev of None \<Rightarrow> Inl Null_deref | Some d \<Rightarrow> Inr (plat_drvdata s d))"

text \<open>
  \<^verbatim>\<open>ls_inject_store\<close>. \<open>mem\<close> tells whether \<^verbatim>\<open>kstrdup\<close> returns a copy; its
  result is stripped without a test, and \<^verbatim>\<open>devname\<close> is from then on the pointer
  \<^verbatim>\<open>strstrip\<close> returned: that is the name matched and the pointer handed to
  \<^verbatim>\<open>kfree\<close> on both ways out. The result is the count the caller passed, or the
  fault. The value \<^verbatim>\<open>lscon_add_device\<close> returns is not looked at.
\<close>

definition ls_inject_store ::
  "bool \<Rightarrow> create_env \<Rightarrow> string \<Rightarrow> nat \<Rightarrow> bus_state \<Rightarrow> fault + (nat \<times> bus_state)" where
  "ls_inject_store mem ce buf count s =
     (case dev_get_drvdata s (bus_dev_root s) of
        Inl f \<Rightarrow> Inl f
      | Inr ls \<Rightarrow>
          if \<not> mem then Inl Null_deref
          else
            (let devname = strstrip (kstrdup buf);
                 ret = bus_for_each_drv (bus_drivers s) (ls_inject_match (snd devname))
             in if ret = 0 then kfree devname (count, s)
                else
                  (case ls of
                     None \<Rightarrow> Inl Null_deref
                   | Some l \<Rightarrow>
                       kfree devname
                         (count,
                          snd (lscon_add_device ce l (Some (snd devname)) None
                                (logged (Ev_dev_info ''create device'') s))))))"

text \<open>\<^verbatim>\<open>ls_eject_store\<close>, with the same copy, strip and \<^verbatim>\<open>kfree\<close>.\<close>

definition ls_eject_store :: "bool \<Rightarrow> string \<Rightarrow> nat \<Rightarrow> bus_state \<Rightarrow> fault + (nat \<times> bus_state)" where
  "ls_eject_store mem buf count s =
     (case dev_get_drvdata s (bus_dev_root s) of
        Inl f \<Rightarrow> Inl f
      | Inr ls \<Rightarrow>
          if \<not> mem then Inl Null_deref
          else
            (let devname = strstrip (kstrdup buf)
             in (case bus_find_device_by_name (bus_devices s) (snd devname) of
                   None \<Rightarrow> kfree devname (count, s)
                 | Some lsdev \<Rightarrow>
                     (case ls of
                        None \<Rightarrow> Inl Null_deref
                      | Some l \<Rightarrow>
                          kfree devname
                            (count,
                             lscon_del_device lsdev
                               (logged (Ev_dev_info ''destroy device'') s))))))"


subsection \<open>Upstream references held, sequences of operations, example systems\<close>

text \<open>The upstream references a log leaves held: those taken and not yet put.\<close>

datatype upstream = Up_i2c i2c_adapter | Up_spi spi_controller

fun held_step :: "upstream list \<Rightarrow> ls_event \<Rightarrow> upstream list" where
  "held_step h (Ev_i2c_get a) = Up_i2c a # h"
| "held_step h (Ev_i2c_put (Some a)) = remove1 (Up_i2c a) h"
| "held_step h (Ev_spi_get c) = Up_spi c # h"
| "held_step h (Ev_spi_put (Some c)) = remove1 (Up_spi c) h"
| "held_step h e = h"

definition held :: "bus_state \<Rightarrow> upstream list" where
  "held s = foldl held_step [] (bus_log s)"

text \<open>The provider lookups in a log.\<close>

fun is_lookup :: "ls_event \<Rightarrow> bool" where
  "is_lookup (Ev_i2c_lookup n) = True"
| "is_lookup (Ev_spi_lookup n) = True"
| "is_lookup e = False"

definition lookups :: "bus_state \<Rightarrow> ls_event list" where
  "lookups s = filter is_lookup (bus_log s)"

text \<open>
  A create or a destroy on one connector; \<open>Destroy n\<close> destroys the device at position
  \<open>n\<close> of the bus and does nothing when there is none.
\<close>

datatype ls_op = Create create_env "string option" "node option" | Destroy nat

fun run_op :: "ls_connector \<Rightarrow> bus_state \<Rightarrow> ls_op \<Rightarrow> bus_state" where
  "run_op ls s (Create ce name np) = snd (lscon_add_device ce ls name np s)"
| "run_op ls s (Destroy n) =
     (if n < length (bus_devices s) then lscon_del_device (bus_devices s ! n) s else s)"

definition run_ops :: "ls_connector \<Rightarrow> ls_op list \<Rightarrow> bus_state \<Rightarrow> bus_state" where
  "run_ops ls ops s = foldl (run_op ls) s ops"

text \<open>A create call in which nothing outside the driver fails.\<close>

definition create_ok :: "create_env \<Rightarrow> bool" where
  "create_ok ce \<longleftrightarrow> ce_kzalloc ce \<and> ce_ida_mem ce \<and> ce_device_add ce = None"

text \<open>What destroying one device logs.\<close>

definition del_events :: "ls_device \<Rightarrow> ls_event list" where
  "del_events d =
     (case dev_driver d of
        None \<Rightarrow> []
      | Some drv \<Rightarrow>
          if drv_has_remove drv then [Ev_driver_remove (drv_name drv) (dev_id d)] else [])
     @ [Ev_device_del (dev_id d)]"

text \<open>
  The order of a detach as the specification words it: the children, then SPI, I2C-B and
  I2C-A, and the active-connector reference last.
\<close>

definition spec_detach_log :: "ls_connector \<Rightarrow> ls_device list \<Rightarrow> ls_event list" where
  "spec_detach_log ls devs =
     concat (map del_events devs)
     @ [Ev_spi_put (con_spi ls), Ev_i2c_put (con_i2c1 ls), Ev_i2c_put (con_i2c0 ls),
        Ev_set_dev_root None]"

text \<open>
  An example system: a board whose connector node has the three links, with both I2C
  adapters and the SPI controller present, the secure96 driver registered, and two
  mezzanine nodes under the connector.
\<close>

definition secure96_driver :: ls_driver where
  "secure96_driver = \<lparr>drv_name = ''secure96'', drv_has_remove = True\<rparr>"

definition demo_links :: "string \<Rightarrow> node option" where
  "demo_links prop =
     (if prop = ''i2c0'' then Some ''/soc/i2c@0''
      else if prop = ''i2c1'' then Some ''/soc/i2c@1''
      else if prop = ''spi'' then Some ''/soc/spi@0'' else None)"

definition demo_adapters :: "node \<Rightarrow> i2c_adapter option" where
  "demo_adapters n =
     (if n = ''/soc/i2c@0'' then Some 0 else if n = ''/soc/i2c@1'' then Some 1 else None)"

definition demo_spi :: "node \<Rightarrow> spi_controller option" where
  "demo_spi n = (if n = ''/soc/spi@0'' then Some 0 else None)"

definition no_error :: "string \<Rightarrow> errno option" where
  "no_error attr = None"

definition file_exists :: "string \<Rightarrow> errno option" where
  "file_exists attr = Some EEXIST"

definition created :: "ls_driver option \<Rightarrow> create_env" where
  "created drv = \<lparr>ce_kzalloc = True, ce_ida_mem = True, ce_device_add = None, ce_bound = drv\<rparr>"

definition out_of_memory :: create_env where
  "out_of_memory =
     \<lparr>ce_kzalloc = False, ce_ida_mem = True, ce_device_add = None, ce_bound = None\<rparr>"

definition demo_env :: "(node \<times> create_env) list \<Rightarrow> probe_env" where
  "demo_env children =
     \<lparr>pe_kzalloc = True, pe_phandle = demo_links, pe_i2c_adapter = demo_adapters,
      pe_spi_controller = demo_spi, pe_spi_get = True, pe_create_file = no_error,
      pe_children = children\<rparr>"

definition demo_connector :: ls_connector where
  "demo_connector =
     \<lparr>con_dev = ''lscon'', con_i2c0 = Some 0, con_i2c1 = Some 1, con_spi = Some 0\<rparr>"

definition demo_attached :: bus_state where
  "demo_attached =
     snd (lscon_probe
            (demo_env [(''/lscon/mezz0'', created (Some secure96_driver)),
                       (''/lscon/mezz1'', created None)])
            ''lscon'' (boot_state [secure96_driver]))"


subsection \<open>Conditions of an attach\<close>

text \<open>
  The three links of the connector node are declared and their providers present, with
  the nodes and handles named; and the three attribute files can be created.
\<close>

definition bundle_resolves ::
  "probe_env \<Rightarrow> node \<Rightarrow> i2c_adapter \<Rightarrow> node \<Rightarrow> i2c_adapter \<Rightarrow> node \<Rightarrow> spi_controller \<Rightarrow> bool"
  where
  "bundle_resolves env n0 a0 n1 a1 ns c \<longleftrightarrow>
     pe_kzalloc env
     \<and> pe_phandle env ''i2c0'' = Some n0 \<and> pe_i2c_adapter env n0 = Some a0
     \<and> pe_phandle env ''i2c1'' = Some n1 \<and> pe_i2c_adapter env n1 = Some a1
     \<and> pe_phandle env ''spi'' = Some ns \<and> pe_spi_controller env ns = Some c
     \<and> pe_spi_get env"

definition files_created :: "probe_env \<Rightarrow> bool" where
  "files_created env \<longleftrightarrow>
     pe_create_file env ''supported'' = None \<and> pe_create_file env ''inject'' = None
     \<and> pe_create_file env ''eject'' = None"

text \<open>What the log holds after the three links were resolved.\<close>

definition resolved_log ::
  "node \<Rightarrow> i2c_adapter \<Rightarrow> node \<Rightarrow> i2c_adapter \<Rightarrow> node \<Rightarrow> spi_controller \<Rightarrow> ls_event list" where
  "resolved_log n0 a0 n1 a1 ns c =
     [Ev_of_parse_phandle ''i2c0'', Ev_i2c_lookup n0, Ev_i2c_get a0,
      Ev_of_parse_phandle ''i2c1'', Ev_i2c_lookup n1, Ev_i2c_get a1,
      Ev_of_parse_phandle ''spi'', Ev_spi_lookup ns, Ev_spi_get c]"

text \<open>An attach stopped with error \<open>e\<close> before the bus was touched.\<close>

definition aborted :: "probe_env \<Rightarrow> device \<Rightarrow> bus_state \<Rightarrow> errno \<Rightarrow> bool" where
  "aborted env pdev s e \<longleftrightarrow>
     fst (lscon_probe env pdev s) = Some e
     \<and> bus_devices (snd (lscon_probe env pdev s)) = bus_devices s
     \<and> bus_dev_root (snd (lscon_probe env pdev s)) = bus_dev_root s"

text \<open>The example system when the attribute files of the bus exist already.\<close>

definition reattach_env :: probe_env where
  "reattach_env = (demo_env [])\<lparr>pe_create_file := file_exists\<rparr>"

text \<open>An I2C link of the connector node is declared and its adapter is there.\<close>

definition i2c_link :: "probe_env \<Rightarrow> string \<Rightarrow> node \<Rightarrow> i2c_adapter \<Rightarrow> bool" where
  "i2c_link env prop n a \<longleftrightarrow> pe_phandle env prop = Some n \<and> pe_i2c_adapter env n = Some a"

text \<open>The example system with no SPI controller yet, and with no link declared.\<close>

definition spi_absent :: probe_env where
  "spi_absent = (demo_env [])\<lparr>pe_spi_controller := (\<lambda>n. None)\<rparr>"

definition no_links :: probe_env where
  "no_links = (demo_env [])\<lparr>pe_phandle := (\<lambda>prop. None)\<rparr>"

subsection \<open>Decimal numerals\<close>

text \<open>
  What a string of digits denotes, read from the left, and what makes a string the
  decimal numeral of a number as \<^verbatim>\<open>%d\<close> prints it: digits only, at least one, no
  leading zero unless it is the one digit, and that number as its value.
\<close>

definition is_digit :: "char \<Rightarrow> bool" where
  "is_digit c \<longleftrightarrow> c \<in> set ''0123456789''"

definition digit_value :: "char \<Rightarrow> nat" where
  "digit_value c = of_char c - 48"

definition numeral_value :: "string \<Rightarrow> nat" where
  "numeral_value ds = foldl (\<lambda>a c. 10 * a + digit_value c) 0 ds"

definition is_decimal_of :: "string \<Rightarrow> nat \<Rightarrow> bool" where
  "is_decimal_of ds n \<longleftrightarrow>
     ds \<noteq> [] \<and> list_all is_digit ds \<and> (hd ds = CHR ''0'' \<longrightarrow> ds = ''0'')
     \<and> numeral_value ds = n"

text \<open>The bus after twelve devices were created from nodes, none of them named.\<close>

definition twelve_devices :: bus_state where
  "twelve_devices =
     run_ops demo_connector (replicate 12 (Create (created None) None None)) (boot_state [])"

subsection \<open>Consistency of the ids\<close>

text \<open>Live ids are distinct, in use in the allocator, and within its range.\<close>

definition ids_consistent :: "bus_state \<Rightarrow> bool" where
  "ids_consistent s \<longleftrightarrow>
     distinct (map dev_id (bus_devices s))
     \<and> dev_id ` set (bus_devices s) \<subseteq> set (ls_device_ida s)
     \<and> (\<forall>i \<in> set (ls_device_ida s). i \<le> INT_MAX)"

subsection \<open>Intermediate states of the secure96 probe\<close>

text \<open>
  The state after the attempt on the write-protect line, and the state in which the TPM
  part starts when the EEPROM client could be created.
\<close>

definition wp_line_taken :: "s96_env \<Rightarrow> s96_state \<Rightarrow> s96_state" where
  "wp_line_taken env s =
     (if gpio_avail env LS_GPIO_B
      then (emit (Ls_get_gpiod LS_GPIO_B) s)\<lparr>wp_gpiod := Some LS_GPIO_B\<rparr>
      else emit (Dev_err ''no CAT21M01 write-protect GPIO'') s)"

definition i2c_populated :: "s96_env \<Rightarrow> s96_state \<Rightarrow> s96_state" where
  "i2c_populated env s =
     (let s1 = wp_line_taken env s in
      s1\<lparr>events := events s1 @ I2c_new_device Eeprom (wp_gpiod s1)
           # (if i2c_ok env Crypto then [I2c_new_device Crypto None] else [])
           @ (if i2c_ok env Hash then [I2c_new_device Hash None] else []),
         sec := (sec s1)
             \<lparr>eeprom := Some Eeprom,
              crypto := (if i2c_ok env Crypto then Some Crypto else None),
              hash := (if i2c_ok env Hash then Some Hash else None)\<rparr>\<rparr>)"

text \<open>The environment in which the write-protect line can be had and all else is as in \<open>env\<close>.\<close>

definition with_wp_line :: "s96_env \<Rightarrow> s96_env" where
  "with_wp_line env = env\<lparr>gpio_avail := (gpio_avail env)(LS_GPIO_B := True)\<rparr>"

section \<open>Properties of the secure96 driver\<close>

lemma emit_simps [simp]:
  "events (emit e s) = events s @ [e]" "sec (emit e s) = sec s"
  "wp_gpiod (emit e s) = wp_gpiod s" "drvdata_set (emit e s) = drvdata_set s"
  by (simp_all add: emit_def)

lemma put_leds_simps [simp]:
  "events (put_leds gs s) = events s @ map Ls_put_gpiod gs"
  "sec (put_leds gs s) = sec s" "wp_gpiod (put_leds gs s) = wp_gpiod s"
  "drvdata_set (put_leds gs s) = drvdata_set s"
  by (induction gs arbitrary: s) (simp_all add: ls_put_gpiod_def)

lemma out_unreg_leds_events:
  "events (out_unreg_leds s) =
     events s @ Platform_device_unregister # map Ls_put_gpiod (secure96_leds (sec s))"
  by (simp add: out_unreg_leds_def)

lemma out_remove_eeprom_events:
  "events (out_remove_eeprom s) =
     events s @ I2c_unregister_device (eeprom (sec s))
       # (case wp_gpiod s of None \<Rightarrow> [] | Some g \<Rightarrow> [Ls_put_gpiod (Some g)])
       @ Platform_device_unregister # map Ls_put_gpiod (secure96_leds (sec s))"
  by (simp add: out_remove_eeprom_def out_unreg_leds_def ls_put_gpiod_def Let_def
      split: option.splits)

lemma out_remove_hash_events:
  "events (out_remove_hash s) =
     events s @ I2c_unregister_device (hash (sec s)) # I2c_unregister_device (crypto (sec s))
       # I2c_unregister_device (eeprom (sec s))
       # (case wp_gpiod s of None \<Rightarrow> [] | Some g \<Rightarrow> [Ls_put_gpiod (Some g)])
       @ Platform_device_unregister # map Ls_put_gpiod (secure96_leds (sec s))"
  by (simp add: out_remove_hash_def out_remove_crypto_def out_remove_eeprom_events)

lemma out_remove_tpm_reset_events:
  "events (out_remove_tpm_reset s) =
     events s @ Ls_put_gpiod (tpm_reset (sec s))
       # I2c_unregister_device (hash (sec s)) # I2c_unregister_device (crypto (sec s))
       # I2c_unregister_device (eeprom (sec s))
       # (case wp_gpiod s of None \<Rightarrow> [] | Some g \<Rightarrow> [Ls_put_gpiod (Some g)])
       @ Platform_device_unregister # map Ls_put_gpiod (secure96_leds (sec s))"
  by (simp add: out_remove_tpm_reset_def ls_put_gpiod_def out_remove_hash_events)

lemma out_remove_tpm_irq_events:
  "events (out_remove_tpm_irq s) =
     events s @ Ls_put_gpiod (tpm_irq (sec s)) # Ls_put_gpiod (tpm_reset (sec s))
       # I2c_unregister_device (hash (sec s)) # I2c_unregister_device (crypto (sec s))
       # I2c_unregister_device (eeprom (sec s))
       # (case wp_gpiod s of None \<Rightarrow> [] | Some g \<Rightarrow> [Ls_put_gpiod (Some g)])
       @ Platform_device_unregister # map Ls_put_gpiod (secure96_leds (sec s))"
  by (simp add: out_remove_tpm_irq_def ls_put_gpiod_def out_remove_tpm_reset_events)

lemma probe_leds_ready:
  "leds_ready env \<Longrightarrow> secure96_probe env s0 = probe_i2c env (leds_populated s0)"
  by (simp add: secure96_probe_def leds_ready_def ledinfos_def ls_get_gpiod_def emit_def
      leds_populated_def zeroed_sec_def)

lemmas probe_unfold = probe_i2c_def probe_tpm_def ls_get_gpiod_def i2c_new_device_def
  leds_populated_def ledinfos_def zeroed_sec_def acquired_def released_def
  out_unreg_leds_events out_remove_eeprom_events out_remove_hash_events
  out_remove_tpm_reset_events out_remove_tpm_irq_events
  acquisition_sequence_def led_group_def wp_held_def released_exactly_def

lemma probe_eeprom_fails:
  assumes "leds_ready env" "wp_gpiod s0 = None" "events s0 = []"
    "\<not> gpio_avail env LS_GPIO_B" "\<not> i2c_ok env Eeprom"
  shows "fst (secure96_probe env s0) = Some ENODEV"
    and "released (snd (secure96_probe env s0)) = led_group"
    and "acquired (snd (secure96_probe env s0)) = take 5 acquisition_sequence"
  using assms by (simp_all add: probe_leds_ready probe_unfold)

lemma probe_reset_fails:
  assumes "leds_ready env" "wp_gpiod s0 = None" "events s0 = []"
    "i2c_ok env Eeprom" "i2c_ok env Crypto" "i2c_ok env Hash" "\<not> gpio_avail env LS_GPIO_D"
  shows "fst (secure96_probe env s0) = Some ENODEV"
    and "released (snd (secure96_probe env s0)) =
           [I2c Hash, I2c Crypto, I2c Eeprom] @ wp_held env @ led_group"
    and "acquired (snd (secure96_probe env s0)) =
           take 5 acquisition_sequence @ wp_held env @ [I2c Eeprom, I2c Crypto, I2c Hash]"
  using assms by (simp_all add: probe_leds_ready probe_unfold)

lemma probe_irq_fails:
  assumes "leds_ready env" "wp_gpiod s0 = None" "events s0 = []"
    "i2c_ok env Eeprom" "i2c_ok env Crypto" "i2c_ok env Hash" "gpio_avail env LS_GPIO_D"
    "\<not> gpio_avail env LS_GPIO_C"
  shows "fst (secure96_probe env s0) = Some ENODEV"
    and "released (snd (secure96_probe env s0)) =
           [Gpio LS_GPIO_D, I2c Hash, I2c Crypto, I2c Eeprom] @ wp_held env @ led_group"
    and "acquired (snd (secure96_probe env s0)) =
           take 5 acquisition_sequence @ wp_held env
           @ [I2c Eeprom, I2c Crypto, I2c Hash, Gpio LS_GPIO_D]"
  using assms by (simp_all add: probe_leds_ready probe_unfold)

lemma probe_tpm_fails:
  assumes "leds_ready env" "wp_gpiod s0 = None" "events s0 = []"
    "i2c_ok env Eeprom" "i2c_ok env Crypto" "i2c_ok env Hash" "gpio_avail env LS_GPIO_D"
    "gpio_avail env LS_GPIO_C" "\<not> spi_ok env"
  shows "fst (secure96_probe env s0) = Some ENODEV"
    and "released (snd (secure96_probe env s0)) =
           [Gpio LS_GPIO_C, Gpio LS_GPIO_D, I2c Hash, I2c Crypto, I2c Eeprom]
           @ wp_held env @ led_group"
    and "acquired (snd (secure96_probe env s0)) =
           take 5 acquisition_sequence @ wp_held env
           @ [I2c Eeprom, I2c Crypto, I2c Hash, Gpio LS_GPIO_D, Gpio LS_GPIO_C]"
  using assms by (simp_all add: probe_leds_ready probe_unfold)

lemma probe_succeeds:
  assumes "leds_ready env" "wp_gpiod s0 = None" "events s0 = []"
    "i2c_ok env Eeprom" "i2c_ok env Crypto" "i2c_ok env Hash" "gpio_avail env LS_GPIO_D"
    "gpio_avail env LS_GPIO_C" "spi_ok env"
  shows "fst (secure96_probe env s0) = None"
    and "released (snd (secure96_probe env s0)) = []"
    and "acquired (snd (secure96_probe env s0)) =
           take 5 acquisition_sequence @ wp_held env
           @ [I2c Eeprom, I2c Crypto, I2c Hash, Gpio LS_GPIO_D, Gpio LS_GPIO_C, Spi_tpm]"
  using assms by (simp_all add: probe_leds_ready probe_unfold)

lemma remove_after_probe:
  assumes "leds_ready env" "wp_gpiod s0 = None" "events s0 = []"
    "i2c_ok env Eeprom" "i2c_ok env Crypto" "i2c_ok env Hash" "gpio_avail env LS_GPIO_D"
    "gpio_avail env LS_GPIO_C" "spi_ok env"
  shows "\<exists>s'. secure96_remove (snd (secure96_probe env s0)) = Inr s' \<and>
           released s' =
             [Spi_tpm, Gpio LS_GPIO_C, Gpio LS_GPIO_D, I2c Hash, I2c Crypto, I2c Eeprom]
             @ wp_held env @ led_group
           \<and> acquired s' = acquired (snd (secure96_probe env s0))"
  using assms
  by (simp add: probe_leds_ready probe_unfold secure96_remove_def ls_put_gpiod_def)


lemma exactly_from_lists:
  "released s = rs \<Longrightarrow> acquired s = as \<Longrightarrow> distinct rs \<Longrightarrow> set rs = set as
     \<Longrightarrow> released_exactly s"
  by (simp add: released_exactly_def)

lemma wp_held_cases: "wp_held env = [] \<or> wp_held env = [Gpio LS_GPIO_B]"
  by (simp add: wp_held_def)

text \<open>
  C1 (as amended). In \<^verbatim>\<open>secure96_probe\<close>, started with the write-protect field of the
  module NULL and with the four LED lines and the LED group device acquired: when the
  TPM reset line (pin D), the TPM interrupt line (pin C) or the SPI TPM is the first
  acquisition to fail after the EEPROM, crypto and hash peripherals were created, probe
  returns \<^verbatim>\<open>-ENODEV\<close> after releasing every resource it has acquired, once each and
  nothing else: the resources acquired after the LED group in reverse acquisition order
  (the write-protect line, pin B, only if it was acquired), then the LED group device,
  then the LED lines in the order F, G, H, I. The same holds when the EEPROM fails and
  the write-protect line was not acquired. After a probe in which all of these succeed,
  nothing has been released and \<^verbatim>\<open>secure96_remove\<close> releases the full set in the same
  order, the SPI TPM first.
\<close>

theorem secure96_rollback_by_design:
  assumes "leds_ready env" and "wp_gpiod s0 = None" and "events s0 = []"
  shows
    "(let r = secure96_probe env s0; i2cs = [I2c Hash, I2c Crypto, I2c Eeprom] in
      (\<not> gpio_avail env LS_GPIO_B \<and> \<not> i2c_ok env Eeprom \<longrightarrow>
         fst r = Some ENODEV \<and> released (snd r) = led_group \<and> released_exactly (snd r))
      \<and> (i2c_ok env Eeprom \<and> i2c_ok env Crypto \<and> i2c_ok env Hash \<longrightarrow>
           (\<not> gpio_avail env LS_GPIO_D \<longrightarrow>
              fst r = Some ENODEV \<and> released (snd r) = i2cs @ wp_held env @ led_group
              \<and> released_exactly (snd r))
         \<and> (gpio_avail env LS_GPIO_D \<and> \<not> gpio_avail env LS_GPIO_C \<longrightarrow>
              fst r = Some ENODEV
              \<and> released (snd r) = Gpio LS_GPIO_D # i2cs @ wp_held env @ led_group
              \<and> released_exactly (snd r))
         \<and> (gpio_avail env LS_GPIO_D \<and> gpio_avail env LS_GPIO_C \<and> \<not> spi_ok env \<longrightarrow>
              fst r = Some ENODEV
              \<and> released (snd r) =
                  Gpio LS_GPIO_C # Gpio LS_GPIO_D # i2cs @ wp_held env @ led_group
              \<and> released_exactly (snd r))
         \<and> (gpio_avail env LS_GPIO_D \<and> gpio_avail env LS_GPIO_C \<and> spi_ok env \<longrightarrow>
              fst r = None \<and> released (snd r) = []
              \<and> (\<exists>s'. secure96_remove (snd r) = Inr s'
                    \<and> released s' =
                        Spi_tpm # Gpio LS_GPIO_C # Gpio LS_GPIO_D # i2cs @ wp_held env @ led_group
                    \<and> released_exactly s'))))"
proof -
  let ?r = "secure96_probe env s0"
  have a: "fst ?r = Some ENODEV \<and> released (snd ?r) = led_group \<and> released_exactly (snd ?r)"
    if "\<not> gpio_avail env LS_GPIO_B" "\<not> i2c_ok env Eeprom"
    using probe_eeprom_fails [OF assms that]
    by (auto simp: released_exactly_def led_group_def ledinfos_def acquisition_sequence_def)
  have b: "fst ?r = Some ENODEV
      \<and> released (snd ?r) = [I2c Hash, I2c Crypto, I2c Eeprom] @ wp_held env @ led_group
      \<and> released_exactly (snd ?r)"
    if "i2c_ok env Eeprom" "i2c_ok env Crypto" "i2c_ok env Hash" "\<not> gpio_avail env LS_GPIO_D"
    using probe_reset_fails [OF assms that] wp_held_cases [of env]
    by (auto simp: released_exactly_def led_group_def ledinfos_def acquisition_sequence_def)
  have c: "fst ?r = Some ENODEV
      \<and> released (snd ?r) =
          Gpio LS_GPIO_D # [I2c Hash, I2c Crypto, I2c Eeprom] @ wp_held env @ led_group
      \<and> released_exactly (snd ?r)"
    if "i2c_ok env Eeprom" "i2c_ok env Crypto" "i2c_ok env Hash" "gpio_avail env LS_GPIO_D"
      "\<not> gpio_avail env LS_GPIO_C"
    using probe_irq_fails [OF assms that] wp_held_cases [of env]
    by (auto simp: released_exactly_def led_group_def ledinfos_def acquisition_sequence_def)
  have d: "fst ?r = Some ENODEV
      \<and> released (snd ?r) =
          Gpio LS_GPIO_C # Gpio LS_GPIO_D # [I2c Hash, I2c Crypto, I2c Eeprom]
          @ wp_held env @ led_group
      \<and> released_exactly (snd ?r)"
    if "i2c_ok env Eeprom" "i2c_ok env Crypto" "i2c_ok env Hash" "gpio_avail env LS_GPIO_D"
      "gpio_avail env LS_GPIO_C" "\<not> spi_ok env"
    using probe_tpm_fails [OF assms that] wp_held_cases [of env]
    by (auto simp: released_exactly_def led_group_def ledinfos_def acquisition_sequence_def)
  have e: "fst ?r = None \<and> released (snd ?r) = []
      \<and> (\<exists>s'. secure96_remove (snd ?r) = Inr s'
            \<and> released s' =
                Spi_tpm # Gpio LS_GPIO_C # Gpio LS_GPIO_D # [I2c Hash, I2c Crypto, I2c Eeprom]
                @ wp_held env @ led_group
            \<and> released_exactly s')"
    if "i2c_ok env Eeprom" "i2c_ok env Crypto" "i2c_ok env Hash" "gpio_avail env LS_GPIO_D"
      "gpio_avail env LS_GPIO_C" "spi_ok env"
    using probe_succeeds [OF assms that] remove_after_probe [OF assms that]
      wp_held_cases [of env]
    by (auto simp: released_exactly_def led_group_def ledinfos_def acquisition_sequence_def)
  show ?thesis
    unfolding Let_def using a b c d e by blast
qed


theorem secure96_rollback_by_design_witness:
  "leds_ready (env_without [Spi_tpm]) \<and> wp_gpiod module_init = None
   \<and> events module_init = []
   \<and> fst (secure96_probe (env_without [Spi_tpm]) module_init) = Some ENODEV
   \<and> released (snd (secure96_probe (env_without [Spi_tpm]) module_init)) =
       [Gpio LS_GPIO_C, Gpio LS_GPIO_D, I2c Hash, I2c Crypto, I2c Eeprom, Gpio LS_GPIO_B,
        Leds_device, Gpio LS_GPIO_F, Gpio LS_GPIO_G, Gpio LS_GPIO_H, Gpio LS_GPIO_I]
   \<and> released_exactly (snd (secure96_probe (env_without [Spi_tpm]) module_init))
   \<and> leds_ready (env_without [Gpio LS_GPIO_B, I2c Eeprom])
   \<and> released (snd (secure96_probe (env_without [Gpio LS_GPIO_B, I2c Eeprom]) module_init)) =
       [Leds_device, Gpio LS_GPIO_F, Gpio LS_GPIO_G, Gpio LS_GPIO_H, Gpio LS_GPIO_I]
   \<and> leds_ready (env_without [Gpio LS_GPIO_B])
   \<and> fst (secure96_probe (env_without [Gpio LS_GPIO_B]) module_init) = None
   \<and> (\<exists>s'. secure96_remove (snd (secure96_probe (env_without [Gpio LS_GPIO_B]) module_init))
               = Inr s'
          \<and> released s' =
              [Spi_tpm, Gpio LS_GPIO_C, Gpio LS_GPIO_D, I2c Hash, I2c Crypto, I2c Eeprom,
               Leds_device, Gpio LS_GPIO_F, Gpio LS_GPIO_G, Gpio LS_GPIO_H, Gpio LS_GPIO_I])"
proof -
  have init: "wp_gpiod module_init = None" "events module_init = []"
    by (simp_all add: module_init_def)
  have r1: "leds_ready (env_without [Spi_tpm])"
    and r2: "leds_ready (env_without [Gpio LS_GPIO_B, I2c Eeprom])"
    and r3: "leds_ready (env_without [Gpio LS_GPIO_B])"
    by (simp_all add: leds_ready_def env_without_def env_of_def ledinfos_def)
  show ?thesis
    using init r1 r2 r3
      secure96_rollback_by_design [OF r1 init]
      secure96_rollback_by_design [OF r2 init]
      secure96_rollback_by_design [OF r3 init]
    by (auto simp add: Let_def env_without_def env_of_def wp_held_def led_group_def
        ledinfos_def)
qed

text \<open>
  C1 as stated fails on the code. With only the write-protect line (step 6) failing,
  probe returns 0, not an error; with only the SPI TPM (step 12) failing, probe returns
  \<^verbatim>\<open>-ENODEV\<close> but the releases are not the reverse of the acquisition sequence (the
  LED lines are put in the order F, G, H, I).
\<close>

theorem secure96_rollback_counterexample:
  "acquisition_sequence ! 5 = Gpio LS_GPIO_B
   \<and> fst (secure96_probe (env_without [Gpio LS_GPIO_B]) module_init) = None
   \<and> acquisition_sequence ! 11 = Spi_tpm
   \<and> fst (secure96_probe (env_without [Spi_tpm]) module_init) = Some ENODEV
   \<and> released (snd (secure96_probe (env_without [Spi_tpm]) module_init)) \<noteq> spec_rollback 11"
proof -
  have init: "wp_gpiod module_init = None" "events module_init = []"
    by (simp_all add: module_init_def)
  have r1: "leds_ready (env_without [Spi_tpm])"
    and r3: "leds_ready (env_without [Gpio LS_GPIO_B])"
    by (simp_all add: leds_ready_def env_without_def env_of_def ledinfos_def)
  have "fst (secure96_probe (env_without [Gpio LS_GPIO_B]) module_init) = None"
    using probe_succeeds(1) [OF r3 init] by (simp add: env_without_def env_of_def)
  moreover have "fst (secure96_probe (env_without [Spi_tpm]) module_init) = Some ENODEV"
    using probe_tpm_fails(1) [OF r1 init] by (simp add: env_without_def env_of_def)
  moreover have "released (snd (secure96_probe (env_without [Spi_tpm]) module_init))
      \<noteq> spec_rollback 11"
    using probe_tpm_fails(2) [OF r1 init]
    by (simp add: env_without_def env_of_def spec_rollback_def acquisition_sequence_def
        wp_held_def led_group_def ledinfos_def)
  ultimately show ?thesis
    by (simp add: acquisition_sequence_def)
qed


lemma out_labels_keep [simp]:
  "wp_gpiod (out_unreg_leds s) = wp_gpiod s"
  "wp_gpiod (out_remove_eeprom s) = wp_gpiod s"
  "wp_gpiod (out_remove_crypto s) = wp_gpiod s"
  "wp_gpiod (out_remove_hash s) = wp_gpiod s"
  "wp_gpiod (out_remove_tpm_reset s) = wp_gpiod s"
  "wp_gpiod (out_remove_tpm_irq s) = wp_gpiod s"
  by (simp_all add: out_unreg_leds_def out_remove_eeprom_def out_remove_crypto_def
      out_remove_hash_def out_remove_tpm_reset_def out_remove_tpm_irq_def ls_put_gpiod_def
      Let_def)

lemma released_by_gpio: "Gpio p \<in> set (released_by e) \<longleftrightarrow> e = Ls_put_gpiod (Some p)"
  by (cases e rule: released_by.cases) auto

lemma acquired_by_gpio: "Gpio p \<in> set (acquired_by e) \<longleftrightarrow> e = Ls_get_gpiod p"
  by (cases e rule: acquired_by.cases) auto

lemma released_gpio: "Gpio p \<in> set (released s) \<longleftrightarrow> Ls_put_gpiod (Some p) \<in> set (events s)"
  by (auto simp: released_def released_by_gpio)

lemma acquired_gpio: "Gpio p \<in> set (acquired s) \<longleftrightarrow> Ls_get_gpiod p \<in> set (events s)"
  by (auto simp: acquired_def acquired_by_gpio)

text \<open>The TPM part changes neither the write-protect field nor what was logged before.\<close>

lemma probe_tpm_wp: "wp_gpiod (snd (probe_tpm env s)) = wp_gpiod s"
  by (cases "gpio_avail env LS_GPIO_D"; cases "gpio_avail env LS_GPIO_C"; cases "spi_ok env";
      simp add: probe_tpm_def ls_get_gpiod_def)

lemma probe_tpm_log: "set (events s) \<subseteq> set (events (snd (probe_tpm env s)))"
  by (cases "gpio_avail env LS_GPIO_D"; cases "gpio_avail env LS_GPIO_C"; cases "spi_ok env";
      simp add: probe_tpm_def ls_get_gpiod_def out_remove_hash_events
        out_remove_tpm_reset_events out_remove_tpm_irq_events subset_iff)

lemma probe_tpm_put:
  assumes "Ls_put_gpiod (Some LS_GPIO_B) \<in> set (events (snd (probe_tpm env s)))"
    and "Ls_put_gpiod (Some LS_GPIO_B) \<notin> set (events s)"
    and "Some LS_GPIO_B \<notin> set (secure96_leds (sec s))"
  shows "wp_gpiod s = Some LS_GPIO_B"
  using assms
  by (cases "gpio_avail env LS_GPIO_D"; cases "gpio_avail env LS_GPIO_C"; cases "spi_ok env";
      cases "wp_gpiod s";
      auto simp add: probe_tpm_def ls_get_gpiod_def out_remove_hash_events
        out_remove_tpm_reset_events out_remove_tpm_irq_events)

lemma probe_tpm_get:
  "Ls_get_gpiod LS_GPIO_B \<in> set (events (snd (probe_tpm env s)))
     \<longleftrightarrow> Ls_get_gpiod LS_GPIO_B \<in> set (events s)"
  by (cases "gpio_avail env LS_GPIO_D"; cases "gpio_avail env LS_GPIO_C"; cases "spi_ok env";
      auto simp add: probe_tpm_def ls_get_gpiod_def out_remove_hash_events
        out_remove_tpm_reset_events out_remove_tpm_irq_events)


lemma probe_tpm_return:
  "fst (probe_tpm env s) =
     (if gpio_avail env LS_GPIO_D \<and> gpio_avail env LS_GPIO_C \<and> spi_ok env then None
      else Some ENODEV)"
  by (cases "gpio_avail env LS_GPIO_D"; cases "gpio_avail env LS_GPIO_C"; cases "spi_ok env";
      simp add: probe_tpm_def ls_get_gpiod_def)

lemma probe_i2c_eq:
  "probe_i2c env s =
     (if i2c_ok env Eeprom then probe_tpm env (i2c_populated env s)
      else (Some ENODEV,
            out_unreg_leds
              (emit (Dev_err ''failed to populate EEPROM'')
                 ((wp_line_taken env s)\<lparr>sec := (sec s)\<lparr>eeprom := None\<rparr>\<rparr>))))"
  by (cases "gpio_avail env LS_GPIO_B"; cases "i2c_ok env Eeprom"; cases "i2c_ok env Crypto";
      cases "i2c_ok env Hash";
      simp add: probe_i2c_def ls_get_gpiod_def i2c_new_device_def i2c_populated_def
        wp_line_taken_def emit_def)

lemma probe_return:
  "leds_ready env \<Longrightarrow>
     fst (secure96_probe env s0) =
       (if i2c_ok env Eeprom \<and> gpio_avail env LS_GPIO_D \<and> gpio_avail env LS_GPIO_C \<and> spi_ok env
        then None else Some ENODEV)"
  by (simp add: probe_leds_ready probe_i2c_eq probe_tpm_return)

lemma leds_ready_with_wp_line: "leds_ready (with_wp_line env) = leds_ready env"
  by (simp add: leds_ready_def with_wp_line_def ledinfos_def)


lemma wp_line_taken_simps [simp]:
  "wp_gpiod (wp_line_taken env s) =
     (if gpio_avail env LS_GPIO_B then Some LS_GPIO_B else wp_gpiod s)"
  "sec (wp_line_taken env s) = sec s"
  "events (wp_line_taken env s) =
     events s @ [if gpio_avail env LS_GPIO_B then Ls_get_gpiod LS_GPIO_B
                 else Dev_err ''no CAT21M01 write-protect GPIO'']"
  by (simp_all add: wp_line_taken_def)

lemma i2c_populated_simps [simp]:
  "wp_gpiod (i2c_populated env s) = wp_gpiod (wp_line_taken env s)"
  "secure96_leds (sec (i2c_populated env s)) = secure96_leds (sec s)"
  "events (i2c_populated env s) =
     events (wp_line_taken env s) @ I2c_new_device Eeprom (wp_gpiod (wp_line_taken env s))
       # (if i2c_ok env Crypto then [I2c_new_device Crypto None] else [])
       @ (if i2c_ok env Hash then [I2c_new_device Hash None] else [])"
  by (simp_all add: i2c_populated_def Let_def)

lemma leds_populated_simps [simp]:
  "wp_gpiod (leds_populated s) = wp_gpiod s"
  "secure96_leds (sec (leds_populated s)) = map (Some \<circ> fst) ledinfos"
  "events (leds_populated s) =
     events s @ map (Ls_get_gpiod \<circ> fst) ledinfos @ [Platform_device_register]"
  by (simp_all add: leds_populated_def)

lemma wp_line_stored:
  assumes "leds_ready env"
  shows "wp_gpiod (snd (secure96_probe env s0)) =
           (if gpio_avail env LS_GPIO_B then Some LS_GPIO_B else wp_gpiod s0)"
  using assms by (simp add: probe_leds_ready probe_i2c_eq probe_tpm_wp)

lemma wp_failure_logged:
  assumes "leds_ready env" "\<not> gpio_avail env LS_GPIO_B"
  shows "Dev_err ''no CAT21M01 write-protect GPIO'' \<in> set (events (snd (secure96_probe env s0)))"
proof (cases "i2c_ok env Eeprom")
  case True
  have "Dev_err ''no CAT21M01 write-protect GPIO''
      \<in> set (events (i2c_populated env (leds_populated s0)))"
    using assms by simp
  then show ?thesis
    using assms True probe_tpm_log [of "i2c_populated env (leds_populated s0)" env]
    by (auto simp: probe_leds_ready probe_i2c_eq)
next
  case False
  then show ?thesis
    using assms by (simp add: probe_leds_ready probe_i2c_eq out_unreg_leds_events)
qed

lemma eeprom_without_wp:
  assumes "leds_ready env" "wp_gpiod s0 = None" "\<not> gpio_avail env LS_GPIO_B"
    "i2c_ok env Eeprom"
  shows "I2c_new_device Eeprom None \<in> set (events (snd (secure96_probe env s0)))"
proof -
  have "I2c_new_device Eeprom None \<in> set (events (i2c_populated env (leds_populated s0)))"
    using assms by simp
  then show ?thesis
    using assms probe_tpm_log [of "i2c_populated env (leds_populated s0)" env]
    by (auto simp: probe_leds_ready probe_i2c_eq)
qed

lemma wp_put_only_if_had:
  assumes "leds_ready env" "wp_gpiod s0 = None" "events s0 = []"
    "Gpio LS_GPIO_B \<in> set (released (snd (secure96_probe env s0)))"
  shows "gpio_avail env LS_GPIO_B"
proof (rule ccontr)
  assume no: "\<not> gpio_avail env LS_GPIO_B"
  let ?s = "leds_populated s0"
  have put: "Ls_put_gpiod (Some LS_GPIO_B) \<in> set (events (snd (probe_i2c env ?s)))"
    using assms by (simp add: released_gpio probe_leds_ready)
  show False
  proof (cases "i2c_ok env Eeprom")
    case True
    have "wp_gpiod (i2c_populated env ?s) = Some LS_GPIO_B"
    proof (rule probe_tpm_put)
      show "Ls_put_gpiod (Some LS_GPIO_B)
          \<in> set (events (snd (probe_tpm env (i2c_populated env ?s))))"
        using put True by (simp add: probe_i2c_eq)
      show "Ls_put_gpiod (Some LS_GPIO_B) \<notin> set (events (i2c_populated env ?s))"
        using assms no by (auto simp: ledinfos_def)
      show "Some LS_GPIO_B \<notin> set (secure96_leds (sec (i2c_populated env ?s)))"
        by (simp add: ledinfos_def)
    qed
    then show False using assms no by simp
  next
    case False
    then show False
      using put assms no
      by (auto simp: probe_i2c_eq out_unreg_leds_events ledinfos_def)
  qed
qed

lemma remove_puts_wp:
  assumes "leds_ready env" "wp_gpiod s0 = None" "events s0 = []"
    "fst (secure96_probe env s0) = None"
  shows "\<exists>s'. secure96_remove (snd (secure96_probe env s0)) = Inr s'
           \<and> (Gpio LS_GPIO_B \<in> set (released s') \<longleftrightarrow> gpio_avail env LS_GPIO_B)"
proof -
  have ok: "i2c_ok env Eeprom" "gpio_avail env LS_GPIO_D" "gpio_avail env LS_GPIO_C"
    "spi_ok env"
    using assms(4) probe_return [OF assms(1), of s0] by (simp_all split: if_splits)
  show ?thesis
    using assms(1-3) ok
    by (cases "gpio_avail env LS_GPIO_B"; cases "i2c_ok env Crypto"; cases "i2c_ok env Hash";
        simp add: probe_leds_ready probe_unfold secure96_remove_def ls_put_gpiod_def)
qed

text \<open>
  The first probe after the module is loaded, reached with the LEDs populated and the
  write-protect field of the module NULL. A failure to acquire the write-protect line
  (pin B) is not fatal: probe returns what it returns when the line can be had. It logs
  the failure, goes on, and creates the EEPROM client with no write-protect line in its
  platform data. When the line is acquired it is stored in the module-global field. The
  line is put during rollback only if it was acquired, and after a successful probe
  remove puts it exactly when it was acquired.
\<close>

lemma wp_gpio_first_probe:
  assumes "leds_ready env" and "wp_gpiod s0 = None" and "events s0 = []"
  shows
    "(let r = secure96_probe env s0 in
        fst r = fst (secure96_probe (with_wp_line env) s0)
      \<and> (\<not> gpio_avail env LS_GPIO_B \<longrightarrow>
            Dev_err ''no CAT21M01 write-protect GPIO'' \<in> set (events (snd r))
            \<and> wp_gpiod (snd r) = None
            \<and> (i2c_ok env Eeprom \<longrightarrow> I2c_new_device Eeprom None \<in> set (events (snd r))))
      \<and> (gpio_avail env LS_GPIO_B \<longrightarrow> wp_gpiod (snd r) = Some LS_GPIO_B)
      \<and> (Gpio LS_GPIO_B \<in> set (released (snd r)) \<longrightarrow> gpio_avail env LS_GPIO_B)
      \<and> (fst r = None \<longrightarrow>
            (\<exists>s'. secure96_remove (snd r) = Inr s'
               \<and> (Gpio LS_GPIO_B \<in> set (released s') \<longleftrightarrow> gpio_avail env LS_GPIO_B))))"
proof -
  have "fst (secure96_probe env s0) = fst (secure96_probe (with_wp_line env) s0)"
    using assms(1) probe_return [of env s0] probe_return [of "with_wp_line env" s0]
    by (simp add: leds_ready_with_wp_line) (simp add: with_wp_line_def)
  then show ?thesis
    unfolding Let_def
    using wp_failure_logged [OF assms(1)] wp_line_stored [OF assms(1), of s0]
      eeprom_without_wp [OF assms(1,2)] wp_put_only_if_had [OF assms]
      remove_puts_wp [OF assms] assms(2)
    by auto
qed

lemma wp_gpio_first_probe_example:
  "leds_ready (env_without [Gpio LS_GPIO_B]) \<and> wp_gpiod module_init = None
   \<and> events module_init = [] \<and> \<not> gpio_avail (env_without [Gpio LS_GPIO_B]) LS_GPIO_B
   \<and> fst (secure96_probe (env_without [Gpio LS_GPIO_B]) module_init) = None
   \<and> Dev_err ''no CAT21M01 write-protect GPIO''
       \<in> set (events (snd (secure96_probe (env_without [Gpio LS_GPIO_B]) module_init)))
   \<and> I2c_new_device Eeprom None
       \<in> set (events (snd (secure96_probe (env_without [Gpio LS_GPIO_B]) module_init)))
   \<and> leds_ready (env_without [Spi_tpm]) \<and> gpio_avail (env_without [Spi_tpm]) LS_GPIO_B
   \<and> wp_gpiod (snd (secure96_probe (env_without [Spi_tpm]) module_init)) = Some LS_GPIO_B
   \<and> Gpio LS_GPIO_B \<in> set (released (snd (secure96_probe (env_without [Spi_tpm]) module_init)))"
proof -
  have init: "wp_gpiod module_init = None" "events module_init = []"
    by (simp_all add: module_init_def)
  have r1: "leds_ready (env_without [Gpio LS_GPIO_B])"
    and r2: "leds_ready (env_without [Spi_tpm])"
    by (simp_all add: leds_ready_def env_without_def env_of_def ledinfos_def)
  have ret: "fst (secure96_probe (with_wp_line (env_without [Gpio LS_GPIO_B])) module_init) = None"
    using r1 by (simp add: probe_return leds_ready_with_wp_line)
      (simp add: with_wp_line_def env_without_def env_of_def)
  have put: "Gpio LS_GPIO_B
      \<in> set (released (snd (secure96_probe (env_without [Spi_tpm]) module_init)))"
    using probe_tpm_fails(2) [OF r2 init]
    by (simp add: env_without_def env_of_def wp_held_def)
  show ?thesis
    using init r1 r2 ret put
      wp_gpio_first_probe [OF r1 init] wp_gpio_first_probe [OF r2 init]
    by (simp add: Let_def env_without_def env_of_def)
qed


subsection \<open>Paths of the probe that release nothing\<close>

text \<open>
  Three paths of the probe on which resources stay acquired: a failing LED line returns
  at once, with the lines taken before it not put; a crypto (or hash) client that cannot
  be created goes unnoticed, the test being on the EEPROM pointer, and the probe
  succeeds; a failing EEPROM jumps past the put of the write-protect line.
\<close>

lemma probe_paths_without_release:
  "fst (secure96_probe (env_without [Gpio LS_GPIO_G]) module_init) = Some ENODEV"
  "acquired (snd (secure96_probe (env_without [Gpio LS_GPIO_G]) module_init)) = [Gpio LS_GPIO_F]"
  "released (snd (secure96_probe (env_without [Gpio LS_GPIO_G]) module_init)) = []"
  "fst (secure96_probe (env_without [I2c Crypto]) module_init) = None"
  "crypto (sec (snd (secure96_probe (env_without [I2c Crypto]) module_init))) = None"
  "fst (secure96_probe (env_without [I2c Eeprom]) module_init) = Some ENODEV"
  "Gpio LS_GPIO_B \<in> set (acquired (snd (secure96_probe (env_without [I2c Eeprom]) module_init)))"
  "Gpio LS_GPIO_B \<notin> set (released (snd (secure96_probe (env_without [I2c Eeprom]) module_init)))"
proof -
  have led: "secure96_probe (env_without [Gpio LS_GPIO_G]) module_init =
      (Some ENODEV,
       module_init\<lparr>events := [Ls_get_gpiod LS_GPIO_F, Dev_err ''failed to get GPIO line''],
          sec := zeroed_sec\<lparr>secure96_leds := [Some LS_GPIO_F, None, None, None]\<rparr>\<rparr>)"
    by (simp add: secure96_probe_def env_without_def env_of_def ledinfos_def ls_get_gpiod_def
        emit_def module_init_def zeroed_sec_def)
  show "fst (secure96_probe (env_without [Gpio LS_GPIO_G]) module_init) = Some ENODEV"
    "acquired (snd (secure96_probe (env_without [Gpio LS_GPIO_G]) module_init)) = [Gpio LS_GPIO_F]"
    "released (snd (secure96_probe (env_without [Gpio LS_GPIO_G]) module_init)) = []"
    by (simp_all add: led acquired_def released_def)
  have ready: "leds_ready (env_without [I2c Crypto])" "leds_ready (env_without [I2c Eeprom])"
    by (simp_all add: leds_ready_def env_without_def env_of_def ledinfos_def)
  show "fst (secure96_probe (env_without [I2c Crypto]) module_init) = None"
    by (simp add: probe_return ready) (simp add: env_without_def env_of_def)
  have "crypto (sec (i2c_populated (env_without [I2c Crypto]) s)) = None" for s
    by (simp add: i2c_populated_def env_without_def env_of_def Let_def)
  moreover have "crypto (sec (snd (probe_tpm env s))) = crypto (sec s)" for env s
    by (cases "gpio_avail env LS_GPIO_D"; cases "gpio_avail env LS_GPIO_C"; cases "spi_ok env";
        simp add: probe_tpm_def ls_get_gpiod_def out_remove_hash_def out_remove_crypto_def
          out_remove_eeprom_def out_unreg_leds_def out_remove_tpm_reset_def
          out_remove_tpm_irq_def ls_put_gpiod_def Let_def)
  moreover have "i2c_ok (env_without [I2c Crypto]) Eeprom"
    by (simp add: env_without_def env_of_def)
  ultimately show
    "crypto (sec (snd (secure96_probe (env_without [I2c Crypto]) module_init))) = None"
    by (simp add: probe_leds_ready ready probe_i2c_eq)
  show "fst (secure96_probe (env_without [I2c Eeprom]) module_init) = Some ENODEV"
    by (simp add: probe_return ready) (simp add: env_without_def env_of_def)
  have no: "\<not> i2c_ok (env_without [I2c Eeprom]) Eeprom"
    and yes: "gpio_avail (env_without [I2c Eeprom]) LS_GPIO_B"
    by (simp_all add: env_without_def env_of_def)
  show "Gpio LS_GPIO_B
      \<in> set (acquired (snd (secure96_probe (env_without [I2c Eeprom]) module_init)))"
    "Gpio LS_GPIO_B
      \<notin> set (released (snd (secure96_probe (env_without [I2c Eeprom]) module_init)))"
    using no yes
    by (simp_all add: acquired_gpio released_gpio probe_leds_ready ready probe_i2c_eq
        out_unreg_leds_events ledinfos_def module_init_def)
qed


subsection \<open>The write-protect field across probes\<close>

text \<open>
  Neither the rollback nor \<^verbatim>\<open>secure96_remove\<close> resets the module-global field, so
  a probe after a rollback or a remove starts with the old descriptor in it.
\<close>

lemma remove_keeps_wp_field: "secure96_remove s = Inr s' \<Longrightarrow> wp_gpiod s' = wp_gpiod s"
  by (auto simp: secure96_remove_def ls_put_gpiod_def Let_def split: if_splits)

lemma rollback_keeps_wp_field:
  "leds_ready env \<Longrightarrow> gpio_avail env LS_GPIO_B \<Longrightarrow>
     wp_gpiod (snd (secure96_probe env s0)) = Some LS_GPIO_B"
  by (simp add: wp_line_stored)

text \<open>
  A probe that starts with a descriptor \<open>g\<close> in the field, cannot have the
  write-protect line, and fails at the SPI TPM: what it adds to the log.
\<close>

lemma probe_with_old_wp_field:
  assumes "leds_ready env" "wp_gpiod s0 = Some g" "\<not> gpio_avail env LS_GPIO_B"
    "i2c_ok env Eeprom" "i2c_ok env Crypto" "i2c_ok env Hash" "gpio_avail env LS_GPIO_D"
    "gpio_avail env LS_GPIO_C" "\<not> spi_ok env"
  shows "fst (secure96_probe env s0) = Some ENODEV"
    and "events (snd (secure96_probe env s0)) =
           events s0 @
           [Ls_get_gpiod LS_GPIO_F, Ls_get_gpiod LS_GPIO_G, Ls_get_gpiod LS_GPIO_H,
            Ls_get_gpiod LS_GPIO_I, Platform_device_register,
            Dev_err ''no CAT21M01 write-protect GPIO'', I2c_new_device Eeprom (Some g),
            I2c_new_device Crypto None, I2c_new_device Hash None,
            Ls_get_gpiod LS_GPIO_D, Ls_get_gpiod LS_GPIO_C,
            Dev_err ''failed to populate TPM device'',
            Ls_put_gpiod (Some LS_GPIO_C), Ls_put_gpiod (Some LS_GPIO_D),
            I2c_unregister_device (Some Hash), I2c_unregister_device (Some Crypto),
            I2c_unregister_device (Some Eeprom), Ls_put_gpiod (Some g),
            Platform_device_unregister, Ls_put_gpiod (Some LS_GPIO_F),
            Ls_put_gpiod (Some LS_GPIO_G), Ls_put_gpiod (Some LS_GPIO_H),
            Ls_put_gpiod (Some LS_GPIO_I)]"
  using assms by (simp_all add: probe_leds_ready probe_unfold)

lemma log_extended:
  assumes "events s' = events s @ es"
  shows "acquired s' = acquired s @ concat (map acquired_by es)"
    and "released s' = released s @ concat (map released_by es)"
  using assms by (simp_all add: acquired_def released_def)

text \<open>
  C10, at an input where it fails. A first probe acquires the write-protect line, fails
  at the SPI TPM and rolls back; the line is put and the module-global field keeps the
  descriptor. The driver is probed again, and this time the write-protect line cannot be
  had (and the SPI TPM fails as before). The second probe logs the failure and goes on,
  but it creates the EEPROM client with the old descriptor as its write-protect line, and
  its rollback puts that line although its acquisition failed: over the two probes the
  line was acquired once and put twice.
\<close>

theorem old_wp_descriptor_is_put:
  "(let s1 = snd (secure96_probe (env_without [Spi_tpm]) module_init);
        r2 = secure96_probe (env_without [Gpio LS_GPIO_B, Spi_tpm]) s1
    in fst (secure96_probe (env_without [Spi_tpm]) module_init) = Some ENODEV
       \<and> wp_gpiod s1 = Some LS_GPIO_B
       \<and> fst r2 = Some ENODEV
       \<and> events (snd r2) =
           events s1 @
           [Ls_get_gpiod LS_GPIO_F, Ls_get_gpiod LS_GPIO_G, Ls_get_gpiod LS_GPIO_H,
            Ls_get_gpiod LS_GPIO_I, Platform_device_register,
            Dev_err ''no CAT21M01 write-protect GPIO'',
            I2c_new_device Eeprom (Some LS_GPIO_B),
            I2c_new_device Crypto None, I2c_new_device Hash None,
            Ls_get_gpiod LS_GPIO_D, Ls_get_gpiod LS_GPIO_C,
            Dev_err ''failed to populate TPM device'',
            Ls_put_gpiod (Some LS_GPIO_C), Ls_put_gpiod (Some LS_GPIO_D),
            I2c_unregister_device (Some Hash), I2c_unregister_device (Some Crypto),
            I2c_unregister_device (Some Eeprom), Ls_put_gpiod (Some LS_GPIO_B),
            Platform_device_unregister, Ls_put_gpiod (Some LS_GPIO_F),
            Ls_put_gpiod (Some LS_GPIO_G), Ls_put_gpiod (Some LS_GPIO_H),
            Ls_put_gpiod (Some LS_GPIO_I)]
       \<and> count_list (acquired (snd r2)) (Gpio LS_GPIO_B) = 1
       \<and> count_list (released (snd r2)) (Gpio LS_GPIO_B) = 2)"
proof -
  let ?e1 = "env_without [Spi_tpm]"
  let ?e2 = "env_without [Gpio LS_GPIO_B, Spi_tpm]"
  let ?s1 = "snd (secure96_probe ?e1 module_init)"
  have init: "wp_gpiod module_init = None" "events module_init = []"
    by (simp_all add: module_init_def)
  have r1: "leds_ready ?e1" and r2: "leds_ready ?e2"
    by (simp_all add: leds_ready_def env_without_def env_of_def ledinfos_def)
  have e1: "i2c_ok ?e1 Eeprom" "i2c_ok ?e1 Crypto" "i2c_ok ?e1 Hash" "gpio_avail ?e1 LS_GPIO_D"
    "gpio_avail ?e1 LS_GPIO_C" "\<not> spi_ok ?e1" "gpio_avail ?e1 LS_GPIO_B"
    by (simp_all add: env_without_def env_of_def)
  have e2: "\<not> gpio_avail ?e2 LS_GPIO_B" "i2c_ok ?e2 Eeprom" "i2c_ok ?e2 Crypto"
    "i2c_ok ?e2 Hash" "gpio_avail ?e2 LS_GPIO_D" "gpio_avail ?e2 LS_GPIO_C" "\<not> spi_ok ?e2"
    by (simp_all add: env_without_def env_of_def)
  note first = probe_tpm_fails [OF r1 init e1(1-6)]
  have wp: "wp_gpiod ?s1 = Some LS_GPIO_B"
    using e1(7) by (simp add: wp_line_stored [OF r1])
  note second = probe_with_old_wp_field [OF r2 wp e2]
  have acq: "count_list (acquired ?s1) (Gpio LS_GPIO_B) = 1"
    and rel: "count_list (released ?s1) (Gpio LS_GPIO_B) = 1"
    using e1(7)
    by (simp_all add: first acquisition_sequence_def wp_held_def led_group_def ledinfos_def)
  have "count_list (acquired (snd (secure96_probe ?e2 ?s1))) (Gpio LS_GPIO_B) = 1"
    by (simp add: log_extended(1) [OF second(2)] acq)
  moreover have "count_list (released (snd (secure96_probe ?e2 ?s1))) (Gpio LS_GPIO_B) = 2"
    by (simp add: log_extended(2) [OF second(2)] rel)
  ultimately show ?thesis
    unfolding Let_def using first(1) wp second by simp
qed

section \<open>Properties of the connector driver\<close>

lemma logged_simps [simp]:
  "bus_log (logged e s) = bus_log s @ [e]" "bus_devices (logged e s) = bus_devices s"
  "bus_drivers (logged e s) = bus_drivers s" "bus_dev_root (logged e s) = bus_dev_root s"
  "bus_files (logged e s) = bus_files s" "plat_drvdata (logged e s) = plat_drvdata s"
  "ls_device_ida (logged e s) = ls_device_ida s"
  by (simp_all add: logged_def)

subsection \<open>The allocator\<close>

lemma least_free_notin: "least_free ida i \<notin> set ida"
proof (induction ida i rule: least_free.induct)
  case (1 ida i)
  then show ?case by (subst least_free.simps) simp
qed

lemma least_free_ge: "i \<le> least_free ida i"
proof (induction ida i rule: least_free.induct)
  case (1 ida i)
  then show ?case by (subst least_free.simps) (auto dest: Suc_leD)
qed

lemma least_free_below: "i \<le> j \<Longrightarrow> j < least_free ida i \<Longrightarrow> j \<in> set ida"
proof (induction ida i rule: least_free.induct)
  case (1 ida i)
  show ?case
  proof (cases "i \<in> set ida")
    case True
    then have lf: "least_free ida i = least_free ida (Suc i)"
      by (subst least_free.simps) simp
    show ?thesis
    proof (cases "j = i")
      case True
      with \<open>i \<in> set ida\<close> show ?thesis by simp
    next
      case False
      with "1.prems" have "Suc i \<le> j" by simp
      with "1.IH" [OF True] "1.prems" lf show ?thesis by simp
    qed
  next
    case False
    then have "least_free ida i = i" by (subst least_free.simps) simp
    with "1.prems" show ?thesis by simp
  qed
qed

lemma least_free_le: "i \<le> k \<Longrightarrow> k \<notin> set ida \<Longrightarrow> least_free ida i \<le> k"
  using least_free_below [of i k ida] by (cases "k < least_free ida i") auto

lemma least_free_eq:
  "i \<le> k \<Longrightarrow> k \<notin> set ida \<Longrightarrow> (\<forall>j. i \<le> j \<and> j < k \<longrightarrow> j \<in> set ida) \<Longrightarrow> least_free ida i = k"
  using least_free_le [of i k ida] least_free_notin [of ida i] least_free_ge [of i ida]
  by (metis le_neq_implies_less)

lemma least_free_bounded: "least_free ida 0 \<le> length ida"
proof -
  have "{0..<least_free ida 0} \<subseteq> set ida"
    using least_free_below [of 0 _ ida] by auto
  then have "card {0..<least_free ida 0} \<le> card (set ida)"
    by (intro card_mono) simp_all
  also have "\<dots> \<le> length ida" by (rule card_length)
  finally show ?thesis by simp
qed


subsection \<open>Creating and destroying devices\<close>

text \<open>The three ways \<^verbatim>\<open>lscon_add_device\<close> ends.\<close>

lemma lscon_add_device_cases:
  obtains (early) e where "lscon_add_device ce ls name np s = (Some e, s)"
      and "\<not> create_ok ce \<or> INT_MAX < least_free (ls_device_ida s) 0"
  | (leaked) e where "lscon_add_device ce ls name np s =
        (Some e, logged (Ev_dev_err ''failed to add device'')
                   (s\<lparr>ls_device_ida := least_free (ls_device_ida s) 0 # ls_device_ida s\<rparr>))"
      and "least_free (ls_device_ida s) 0 \<le> INT_MAX" and "\<not> create_ok ce"
  | (added) "lscon_add_device ce ls name np s =
        (None,
         s\<lparr>ls_device_ida := least_free (ls_device_ida s) 0 # ls_device_ida s,
            bus_devices := bus_devices s @
              [\<lparr>dev_id = least_free (ls_device_ida s) 0,
                dev_name = (case name of Some n \<Rightarrow> n
                            | None \<Rightarrow> ''mezzanine'' @ decimal (least_free (ls_device_ida s) 0)),
                dev_of_node = np, dev_parent = con_dev ls, dev_i2c0 = con_i2c0 ls,
                dev_i2c1 = con_i2c1 ls, dev_spi = con_spi ls, dev_driver = ce_bound ce\<rparr>]\<rparr>)"
      and "least_free (ls_device_ida s) 0 \<le> INT_MAX" and "create_ok ce"
proof (cases "create_ok ce \<and> least_free (ls_device_ida s) 0 \<le> INT_MAX")
  case True
  then show ?thesis
    by (intro added)
      (simp_all add: lscon_add_device_def ida_simple_get_def create_ok_def Let_def)
next
  case False
  show ?thesis
  proof (cases "ce_kzalloc ce \<and> ce_ida_mem ce \<and> least_free (ls_device_ida s) 0 \<le> INT_MAX")
    case True
    with False obtain e where "ce_device_add ce = Some e"
      by (auto simp: create_ok_def)
    with True show ?thesis
      by (intro leaked [of e])
        (simp_all add: lscon_add_device_def ida_simple_get_def Let_def create_ok_def)
  next
    case no: False
    then have "\<exists>e. lscon_add_device ce ls name np s = (Some e, s)"
      by (auto simp: lscon_add_device_def ida_simple_get_def Let_def)
    moreover have "\<not> create_ok ce \<or> INT_MAX < least_free (ls_device_ida s) 0"
      using False by auto
    ultimately show ?thesis using early by blast
  qed
qed

lemma ids_consistent_boot: "ids_consistent (boot_state drvs)"
  by (simp add: ids_consistent_def boot_state_def)

lemma ids_consistent_add:
  assumes "ids_consistent s"
  shows "ids_consistent (snd (lscon_add_device ce ls name np s))"
proof (cases rule: lscon_add_device_cases [where ce=ce and ls=ls and name=name and np=np and s=s])
  case (early e)
  with assms show ?thesis by simp
next
  case (leaked e)
  with assms show ?thesis by (auto simp: ids_consistent_def)
next
  case added
  have "least_free (ls_device_ida s) 0 \<notin> dev_id ` set (bus_devices s)"
    using assms least_free_notin [of "ls_device_ida s" 0] by (auto simp: ids_consistent_def)
  with assms added show ?thesis by (auto simp: ids_consistent_def)
qed

lemma remove1_distinct_image:
  "distinct (map f xs) \<Longrightarrow> x \<in> set xs \<Longrightarrow> f x \<notin> f ` set (remove1 x xs)"
  by (induction xs) (auto simp: image_iff)

lemma distinct_map_remove1: "distinct (map f xs) \<Longrightarrow> distinct (map f (remove1 x xs))"
proof (induction xs)
  case Nil
  then show ?case by simp
next
  case (Cons a xs)
  have "f a \<notin> f ` set (remove1 x xs)"
    using Cons.prems set_remove1_subset [of x xs] by auto
  with Cons show ?case by simp
qed

lemma lscon_del_device_fields:
  "bus_devices (lscon_del_device d s) = remove1 d (bus_devices s)"
  "ls_device_ida (lscon_del_device d s) = removeAll (dev_id d) (ls_device_ida s)"
  "bus_dev_root (lscon_del_device d s) = bus_dev_root s"
  "plat_drvdata (lscon_del_device d s) = plat_drvdata s"
  "bus_log (lscon_del_device d s) = bus_log s @ del_events d"
  by (auto simp: lscon_del_device_def device_del_def ls_driver_remove_def ida_simple_remove_def
      del_events_def Let_def split: option.splits)

lemma ids_consistent_del:
  assumes "ids_consistent s" "d \<in> set (bus_devices s)"
  shows "ids_consistent (lscon_del_device d s)"
proof -
  have "dev_id d \<notin> dev_id ` set (remove1 d (bus_devices s))"
    using assms by (intro remove1_distinct_image) (simp_all add: ids_consistent_def)
  moreover have "dev_id ` set (remove1 d (bus_devices s)) \<subseteq> set (ls_device_ida s)"
    using assms set_remove1_subset [of d "bus_devices s"] by (auto simp: ids_consistent_def)
  moreover have "distinct (map dev_id (remove1 d (bus_devices s)))"
    using assms by (simp add: ids_consistent_def distinct_map_remove1)
  ultimately have "distinct (map dev_id (remove1 d (bus_devices s)))
      \<and> dev_id ` set (remove1 d (bus_devices s)) \<subseteq> set (ls_device_ida s) - {dev_id d}"
    by blast
  then show ?thesis
    using assms by (simp add: ids_consistent_def lscon_del_device_fields)
qed

lemma ids_consistent_op: "ids_consistent s \<Longrightarrow> ids_consistent (run_op ls s op)"
  by (cases op) (simp_all add: ids_consistent_add ids_consistent_del)

lemma ids_consistent_ops: "ids_consistent s \<Longrightarrow> ids_consistent (run_ops ls ops s)"
  unfolding run_ops_def by (induction ops arbitrary: s) (simp_all add: ids_consistent_op)


text \<open>What a create after a destroy gets.\<close>

lemma create_after_destroy:
  assumes "ids_consistent s" "d \<in> set (bus_devices s)" "create_ok ce"
  shows "dev_id d \<notin> set (ls_device_ida (lscon_del_device d s))"
    and "fst (lscon_add_device ce ls name np (lscon_del_device d s)) = None"
    and "dev_id (last (bus_devices (snd (lscon_add_device ce ls name np (lscon_del_device d s)))))
           = least_free (ls_device_ida (lscon_del_device d s)) 0"
    and "least_free (ls_device_ida (lscon_del_device d s)) 0 \<le> dev_id d"
    and "least_free (ls_device_ida (lscon_del_device d s)) 0
           \<notin> dev_id ` set (bus_devices (lscon_del_device d s))"
proof -
  let ?s' = "lscon_del_device d s"
  show free: "dev_id d \<notin> set (ls_device_ida ?s')"
    by (simp add: lscon_del_device_fields)
  then show le: "least_free (ls_device_ida ?s') 0 \<le> dev_id d"
    by (intro least_free_le) simp_all
  have "dev_id d \<le> INT_MAX"
    using assms(1,2) by (auto simp: ids_consistent_def)
  with le have inrange: "least_free (ls_device_ida ?s') 0 \<le> INT_MAX" by simp
  with \<open>create_ok ce\<close> show "fst (lscon_add_device ce ls name np ?s') = None"
    and "dev_id (last (bus_devices (snd (lscon_add_device ce ls name np ?s'))))
           = least_free (ls_device_ida ?s') 0"
    by (simp_all add: lscon_add_device_def ida_simple_get_def create_ok_def Let_def)
  have "ids_consistent ?s'"
    using assms(1,2) by (simp add: ids_consistent_del)
  then show "least_free (ls_device_ida ?s') 0 \<notin> dev_id ` set (bus_devices ?s')"
    using least_free_notin [of "ls_device_ida ?s'" 0] by (auto simp: ids_consistent_def)
qed

text \<open>
  C3. After every sequence of create and destroy operations on one connector, started
  from the empty bus, the ids of the live devices are distinct. Destroying a live device
  leaves its id free in the allocator, and the next create in which nothing outside the
  driver fails succeeds with an id that no live device has and that is at most the freed
  id: it is the freed id itself whenever every smaller id is in use.
\<close>

theorem live_ids_unique_and_reused:
  "(let s = run_ops ls ops (boot_state drvs) in
      distinct (map dev_id (bus_devices s))
    \<and> (\<forall>d \<in> set (bus_devices s).
          let s' = lscon_del_device d s in
            dev_id d \<notin> set (ls_device_ida s')
          \<and> (\<forall>ce name np. create_ok ce \<longrightarrow>
                (let r = lscon_add_device ce ls name np s';
                     i = dev_id (last (bus_devices (snd r)))
                 in fst r = None
                  \<and> bus_devices (snd r) \<noteq> []
                  \<and> i \<notin> dev_id ` set (bus_devices s')
                  \<and> i \<le> dev_id d
                  \<and> ((\<forall>j < dev_id d. j \<in> set (ls_device_ida s')) \<longrightarrow> i = dev_id d)))))"
proof -
  let ?s = "run_ops ls ops (boot_state drvs)"
  have inv: "ids_consistent ?s"
    by (simp add: ids_consistent_ops ids_consistent_boot)
  have "distinct (map dev_id (bus_devices ?s))"
    using inv by (simp add: ids_consistent_def)
  moreover have "dev_id d \<notin> set (ls_device_ida (lscon_del_device d ?s))"
    if "d \<in> set (bus_devices ?s)" for d
    by (simp add: lscon_del_device_fields)
  moreover have "fst (lscon_add_device ce ls name np (lscon_del_device d ?s)) = None
      \<and> bus_devices (snd (lscon_add_device ce ls name np (lscon_del_device d ?s))) \<noteq> []
      \<and> dev_id (last (bus_devices (snd (lscon_add_device ce ls name np (lscon_del_device d ?s)))))
          \<notin> dev_id ` set (bus_devices (lscon_del_device d ?s))
      \<and> dev_id (last (bus_devices (snd (lscon_add_device ce ls name np (lscon_del_device d ?s)))))
          \<le> dev_id d
      \<and> ((\<forall>j < dev_id d. j \<in> set (ls_device_ida (lscon_del_device d ?s))) \<longrightarrow>
           dev_id (last (bus_devices (snd (lscon_add_device ce ls name np (lscon_del_device d ?s)))))
             = dev_id d)"
    if "d \<in> set (bus_devices ?s)" "create_ok ce" for d ce name np
  proof -
    note facts = create_after_destroy(1) [OF inv that]
      create_after_destroy(2,3) [OF inv that, of ls name np]
      create_after_destroy(4,5) [OF inv that]
    have "bus_devices (snd (lscon_add_device ce ls name np (lscon_del_device d ?s))) \<noteq> []"
      using facts(2)
      by (cases rule: lscon_add_device_cases
            [where ce=ce and ls=ls and name=name and np=np and s="lscon_del_device d ?s"])
        auto
    moreover have "least_free (ls_device_ida (lscon_del_device d ?s)) 0 = dev_id d"
      if "\<forall>j < dev_id d. j \<in> set (ls_device_ida (lscon_del_device d ?s))"
      using that facts(1) by (intro least_free_eq) simp_all
    ultimately show ?thesis
      using facts by simp
  qed
  ultimately show ?thesis
    unfolding Let_def by blast
qed


lemmas run_eval = run_ops_def lscon_add_device_def lscon_del_device_def device_del_def
  ls_driver_remove_def ida_simple_get_def ida_simple_remove_def INT_MAX_def least_free.simps
  created_def boot_state_def logged_def Let_def

lemma example_run_ids:
  "map dev_id (bus_devices (run_ops demo_connector
      [Create (created None) None None, Create (created None) None None,
       Create (created None) None None, Destroy 1]
      (boot_state []))) = [0, 2]"
  by (simp add: run_eval)

theorem live_ids_unique_and_reused_witness:
  "(let s = run_ops demo_connector
              [Create (created None) None None, Create (created None) None None,
               Create (created None) None None, Destroy 1]
              (boot_state []);
        d = bus_devices s ! 1
    in map dev_id (bus_devices s) = [0, 2]
     \<and> d \<in> set (bus_devices s)
     \<and> create_ok (created None)
     \<and> distinct (map dev_id (bus_devices s))
     \<and> dev_id d \<notin> set (ls_device_ida (lscon_del_device d s))
     \<and> fst (lscon_add_device (created None) demo_connector None None (lscon_del_device d s))
          = None
     \<and> dev_id (last (bus_devices (snd (lscon_add_device (created None) demo_connector None None
                (lscon_del_device d s))))) \<le> 2)"
proof -
  let ?s = "run_ops demo_connector
              [Create (created None) None None, Create (created None) None None,
               Create (created None) None None, Destroy 1]
              (boot_state [])"
  let ?d = "bus_devices ?s ! 1"
  have ids: "map dev_id (bus_devices ?s) = [0, 2]"
    by (rule example_run_ids)
  have "length (map dev_id (bus_devices ?s)) = 2"
    by (simp only: ids) simp
  then have len: "length (bus_devices ?s) = 2" by simp
  then have mem: "?d \<in> set (bus_devices ?s)" by simp
  have "map dev_id (bus_devices ?s) ! 1 = 2"
    by (simp only: ids) simp
  then have id: "dev_id ?d = 2" using len by simp
  have ok: "create_ok (created None)"
    by (simp add: create_ok_def created_def)
  note inst = live_ids_unique_and_reused [of demo_connector
      "[Create (created None) None None, Create (created None) None None,
        Create (created None) None None, Destroy 1]" "[]", unfolded Let_def]
  from inst have dist: "distinct (map dev_id (bus_devices ?s))" by blast
  from inst mem have free: "dev_id ?d \<notin> set (ls_device_ida (lscon_del_device ?d ?s))"
    by blast
  from inst mem ok
  have "fst (lscon_add_device (created None) demo_connector None None (lscon_del_device ?d ?s))
          = None
      \<and> dev_id (last (bus_devices (snd (lscon_add_device (created None) demo_connector None None
                (lscon_del_device ?d ?s))))) \<le> dev_id ?d"
    by blast
  with ids mem ok dist free id show ?thesis
    unfolding Let_def by simp
qed


subsection \<open>Names of devices\<close>

lemma below_ten: "d < 10 \<Longrightarrow> d \<in> {0, 1, 2, 3, 4, 5, 6, 7, 8, 9::nat}"
  by auto

lemma digit_props:
  assumes "d < 10"
  shows "digit_value (digit d) = d" and "is_digit (digit d)"
    and "digit d = CHR ''0'' \<longleftrightarrow> d = 0"
  using below_ten [OF assms] by (auto simp: digit_def digit_value_def is_digit_def)

lemma numeral_value_snoc:
  "numeral_value (ds @ [c]) = 10 * numeral_value ds + digit_value c"
  by (simp add: numeral_value_def)

text \<open>What \<^verbatim>\<open>%d\<close> prints for an id is the decimal numeral of that id.\<close>

lemma decimal_is_decimal: "is_decimal_of (decimal n) n"
proof (induction n rule: decimal.induct)
  case (1 n)
  show ?case
  proof (cases "n < 10")
    case True
    then have "decimal n = [digit n]"
      by (subst decimal.simps) simp
    then show ?thesis
      using digit_props [OF True]
      by (auto simp: is_decimal_of_def numeral_value_def)
  next
    case False
    then have ih: "is_decimal_of (decimal (n div 10)) (n div 10)"
      using 1 by simp
    have eq: "decimal n = decimal (n div 10) @ [digit (n mod 10)]"
      using False by (subst decimal.simps) simp
    have "n div 10 \<noteq> 0" using False by simp
    with ih have "hd (decimal (n div 10)) \<noteq> CHR ''0''"
      by (auto simp: is_decimal_of_def numeral_value_def digit_value_def)
    then show ?thesis
      using ih
      by (simp add: eq is_decimal_of_def numeral_value_snoc digit_props)
  qed
qed

text \<open>
  C6. When \<^verbatim>\<open>lscon_add_device\<close> returns 0 it has put one device at the end of the
  bus, with the id that \<^verbatim>\<open>ida_simple_get\<close> returned in this call. The device's name
  is the explicit name when one was given, and otherwise \<open>mezzanine\<close> followed by the
  decimal numeral of that id: digits only, no leading zero, and the id as its value.
\<close>

theorem device_display_name:
  assumes "lscon_add_device ce ls name np s = (None, s')"
  shows "\<exists>i d. ida_simple_get (ce_ida_mem ce) (ls_device_ida s) = (Inr i, ls_device_ida s')
           \<and> bus_devices s' = bus_devices s @ [d]
           \<and> dev_id d = i \<and> dev_of_node d = np
           \<and> (name = None \<longrightarrow>
                (\<exists>ds. dev_name d = ''mezzanine'' @ ds \<and> is_decimal_of ds i))
           \<and> (\<forall>n. name = Some n \<longrightarrow> dev_name d = n)"
proof (cases rule: lscon_add_device_cases [where ce=ce and ls=ls and name=name and np=np and s=s])
  case (early e)
  with assms show ?thesis by simp
next
  case (leaked e)
  with assms show ?thesis by simp
next
  case added
  with assms have "s' = snd (lscon_add_device ce ls name np s)" by simp
  with added show ?thesis
    by (auto simp: ida_simple_get_def create_ok_def Let_def decimal_is_decimal)
qed

lemma decimal_examples: "decimal 0 = ''0''" "decimal 12 = ''12''" "decimal 305 = ''305''"
  by (simp_all add: decimal.simps digit_def)

lemma replicate_twelve: "replicate 12 x = [x, x, x, x, x, x, x, x, x, x, x, x]"
  by (simp add: numeral_eq_Suc)

lemma twelve_devices_bus:
  "map dev_name (bus_devices twelve_devices) =
     [''mezzanine0'', ''mezzanine1'', ''mezzanine2'', ''mezzanine3'', ''mezzanine4'',
      ''mezzanine5'', ''mezzanine6'', ''mezzanine7'', ''mezzanine8'', ''mezzanine9'',
      ''mezzanine10'', ''mezzanine11'']"
  "ls_device_ida twelve_devices = [11, 10, 9, 8, 7, 6, 5, 4, 3, 2, 1, 0]"
  by (simp_all add: twelve_devices_def replicate_twelve run_eval decimal.simps digit_def)

theorem device_display_name_witness:
  "lscon_add_device (created None) demo_connector None (Some ''/lscon/mezz0'') twelve_devices
     = (None, snd (lscon_add_device (created None) demo_connector None (Some ''/lscon/mezz0'')
                     twelve_devices))
   \<and> fst (ida_simple_get True (ls_device_ida twelve_devices)) = Inr 12
   \<and> dev_name (last (bus_devices (snd (lscon_add_device (created None) demo_connector None
         (Some ''/lscon/mezz0'') twelve_devices)))) = ''mezzanine12''
   \<and> is_decimal_of ''12'' 12
   \<and> lscon_add_device (created None) demo_connector (Some ''secure96'') None twelve_devices
     = (None, snd (lscon_add_device (created None) demo_connector (Some ''secure96'') None
                     twelve_devices))
   \<and> dev_name (last (bus_devices (snd (lscon_add_device (created None) demo_connector
         (Some ''secure96'') None twelve_devices)))) = ''secure96''"
proof -
  let ?r = "lscon_add_device (created None) demo_connector None (Some ''/lscon/mezz0'')
              twelve_devices"
  let ?q = "lscon_add_device (created None) demo_connector (Some ''secure96'') None
              twelve_devices"
  have ida: "ida_simple_get True (ls_device_ida twelve_devices)
      = (Inr 12, 12 # ls_device_ida twelve_devices)"
    by (simp add: twelve_devices_bus(2) ida_simple_get_def INT_MAX_def least_free.simps)
  have r: "?r = (None, snd ?r)" and q: "?q = (None, snd ?q)"
    by (simp_all add: lscon_add_device_def ida created_def)
  have name: "dev_name (last (bus_devices (snd ?r))) = ''mezzanine12''"
    by (simp add: lscon_add_device_def ida created_def decimal_examples)
  from device_display_name [OF r] obtain i d ds where
    i: "ida_simple_get (ce_ida_mem (created None)) (ls_device_ida twelve_devices)
          = (Inr i, ls_device_ida (snd ?r))"
    and d: "bus_devices (snd ?r) = bus_devices twelve_devices @ [d]"
    and ds: "dev_name d = ''mezzanine'' @ ds" "is_decimal_of ds i"
    by auto
  have "i = 12"
    using i ida by (simp add: created_def)
  moreover have "ds = ''12''"
    using name d ds(1) by simp
  ultimately have twelve: "is_decimal_of ''12'' 12"
    using ds(2) by simp
  from device_display_name [OF q] obtain e where
    "bus_devices (snd ?q) = bus_devices twelve_devices @ [e]" "dev_name e = ''secure96''"
    by auto
  then have "dev_name (last (bus_devices (snd ?q))) = ''secure96''"
    by simp
  then show ?thesis
    using r q ida name twelve by simp
qed


subsection \<open>Attaching\<close>

lemma lscon_probe_resolved:
  assumes "bundle_resolves env n0 a0 n1 a1 ns c"
  shows "lscon_probe env pdev s =
           lscon_probe_bus env pdev
             \<lparr>con_dev = pdev, con_i2c0 = Some a0, con_i2c1 = Some a1, con_spi = Some c\<rparr>
             (s\<lparr>bus_log := bus_log s @ resolved_log n0 a0 n1 a1 ns c\<rparr>)"
  using assms
  by (simp add: bundle_resolves_def lscon_probe_def lscon_probe_i2c1_def lscon_probe_spi_def
      of_parse_phandle_def of_get_i2c_adapter_by_node_def of_find_spi_controller_by_node_def
      spi_controller_get_def logged_def resolved_log_def)

lemma lscon_probe_bus_files:
  assumes "files_created env"
  shows "lscon_probe_bus env pdev ls s =
           (None,
            add_children (pe_children env) ls
              (s\<lparr>plat_drvdata := (plat_drvdata s)(pdev := Some ls),
                 bus_dev_root := Some pdev,
                 bus_files := bus_files s @ [''supported'', ''inject'', ''eject''],
                 bus_log := bus_log s @ [Ev_set_dev_root (Some pdev), Ev_create_file ''supported'',
                   Ev_create_file ''inject'', Ev_create_file ''eject'']\<rparr>))"
  using assms
  by (simp add: files_created_def lscon_probe_bus_def bus_create_file_def logged_def)

text \<open>The loop over the children: what it adds to the bus and what it leaves alone.\<close>

lemma add_children_devices:
  assumes "length (ls_device_ida s) + length cs \<le> INT_MAX"
  shows "\<exists>ds. bus_devices (add_children cs ls s) = bus_devices s @ ds
           \<and> map dev_of_node ds = map (Some \<circ> fst) (filter (create_ok \<circ> snd) cs)"
  using assms
proof (induction cs arbitrary: s)
  case Nil
  then show ?case by simp
next
  case (Cons c cs)
  have lf: "least_free (ls_device_ida s) 0 \<le> INT_MAX"
    using Cons.prems least_free_bounded [of "ls_device_ida s"] by simp
  show ?case
  proof (cases rule: lscon_add_device_cases
      [where ce="snd c" and ls=ls and name=None and np="Some (fst c)" and s=s])
    case (early e)
    with lf have "\<not> create_ok (snd c)" by simp
    moreover have "length (ls_device_ida s) + length cs \<le> INT_MAX"
      using Cons.prems by simp
    ultimately show ?thesis
      using Cons.IH [of s] early by simp
  next
    case (leaked e)
    let ?s1 = "snd (lscon_add_device (snd c) ls None (Some (fst c)) s)"
    have "length (ls_device_ida ?s1) + length cs \<le> INT_MAX"
      using Cons.prems leaked by simp
    from Cons.IH [OF this] leaked show ?thesis by simp
  next
    case added
    let ?s1 = "snd (lscon_add_device (snd c) ls None (Some (fst c)) s)"
    have "length (ls_device_ida ?s1) + length cs \<le> INT_MAX"
      using Cons.prems added by simp
    from Cons.IH [OF this] obtain ds where ds:
      "bus_devices (add_children cs ls ?s1) = bus_devices ?s1 @ ds"
      "map dev_of_node ds = map (Some \<circ> fst) (filter (create_ok \<circ> snd) cs)"
      by blast
    obtain d where d: "bus_devices ?s1 = bus_devices s @ [d]" "dev_of_node d = Some (fst c)"
      using added by simp
    have "bus_devices (add_children (c # cs) ls s) = bus_devices s @ d # ds
        \<and> map dev_of_node (d # ds) = map (Some \<circ> fst) (filter (create_ok \<circ> snd) (c # cs))"
      using ds d added(3) by simp
    then show ?thesis by blast
  qed
qed

lemma lscon_add_device_keeps:
  "bus_dev_root (snd (lscon_add_device ce ls name np s)) = bus_dev_root s"
  "plat_drvdata (snd (lscon_add_device ce ls name np s)) = plat_drvdata s"
  "bus_drivers (snd (lscon_add_device ce ls name np s)) = bus_drivers s"
  by (cases rule: lscon_add_device_cases [where ce=ce and ls=ls and name=name and np=np and s=s];
      simp)+

lemma lscon_add_device_log:
  "\<exists>n. bus_log (snd (lscon_add_device ce ls name np s)) =
         bus_log s @ replicate n (Ev_dev_err ''failed to add device'')"
proof (cases rule: lscon_add_device_cases [where ce=ce and ls=ls and name=name and np=np and s=s])
  case (early e)
  then show ?thesis by simp
next
  case (leaked e)
  then show ?thesis by (intro exI [of _ 1]) simp
next
  case added
  then show ?thesis by simp
qed

lemma add_children_root: "bus_dev_root (add_children cs ls s) = bus_dev_root s"
  by (induction cs arbitrary: s) (simp_all add: lscon_add_device_keeps)

lemma add_children_drvdata: "plat_drvdata (add_children cs ls s) = plat_drvdata s"
  by (induction cs arbitrary: s) (simp_all add: lscon_add_device_keeps)

lemma add_children_drivers: "bus_drivers (add_children cs ls s) = bus_drivers s"
  by (induction cs arbitrary: s) (simp_all add: lscon_add_device_keeps)

lemma add_children_log:
  "\<exists>n. bus_log (add_children cs ls s) =
         bus_log s @ replicate n (Ev_dev_err ''failed to add device'')"
proof (induction cs arbitrary: s)
  case Nil
  then show ?case by simp
next
  case (Cons c cs)
  let ?s1 = "snd (lscon_add_device (snd c) ls None (Some (fst c)) s)"
  obtain n where n: "bus_log ?s1 = bus_log s @ replicate n (Ev_dev_err ''failed to add device'')"
    using lscon_add_device_log by blast
  obtain m where "bus_log (add_children cs ls ?s1)
      = bus_log ?s1 @ replicate m (Ev_dev_err ''failed to add device'')"
    using Cons.IH by blast
  with n have "bus_log (add_children (c # cs) ls s)
      = bus_log s @ replicate (n + m) (Ev_dev_err ''failed to add device'')"
    by (simp add: replicate_add)
  then show ?case by blast
qed

lemma held_step_errors: "foldl held_step h (replicate n (Ev_dev_err m)) = h"
  by (induction n) simp_all

lemma add_children_held: "held (add_children cs ls s) = held s"
proof -
  obtain n where "bus_log (add_children cs ls s)
      = bus_log s @ replicate n (Ev_dev_err ''failed to add device'')"
    using add_children_log by blast
  then show ?thesis by (simp add: held_def held_step_errors)
qed

lemma lscon_probe_attached:
  assumes "bundle_resolves env n0 a0 n1 a1 ns c" and "files_created env"
  obtains s5 where
    "lscon_probe env pdev s =
       (None, add_children (pe_children env)
                \<lparr>con_dev = pdev, con_i2c0 = Some a0, con_i2c1 = Some a1, con_spi = Some c\<rparr> s5)"
    and "ls_device_ida s5 = ls_device_ida s" and "bus_devices s5 = bus_devices s"
    and "bus_drivers s5 = bus_drivers s" and "bus_dev_root s5 = Some pdev"
    and "plat_drvdata s5 pdev =
           Some \<lparr>con_dev = pdev, con_i2c0 = Some a0, con_i2c1 = Some a1, con_spi = Some c\<rparr>"
    and "bus_log s5 = bus_log s @ resolved_log n0 a0 n1 a1 ns c
           @ [Ev_set_dev_root (Some pdev), Ev_create_file ''supported'',
              Ev_create_file ''inject'', Ev_create_file ''eject'']"
  using that
  by (simp add: lscon_probe_resolved [OF assms(1)] lscon_probe_bus_files [OF assms(2)])

text \<open>
  C8 (as amended). Once the three links are resolved and the attribute files created,
  \<^verbatim>\<open>lscon_probe\<close> calls \<^verbatim>\<open>lscon_add_device\<close> for every available child node, in
  order, and returns 0 whatever these calls return: the children for which nothing
  outside the driver fails are on the bus afterwards, in order, behind the devices that
  were there, and nothing about the failed ones is returned.
\<close>

theorem child_errors_do_not_fail_attach:
  assumes "bundle_resolves env n0 a0 n1 a1 ns c" and "files_created env"
    and "length (ls_device_ida s) + length (pe_children env) \<le> INT_MAX"
  shows "fst (lscon_probe env pdev s) = None
       \<and> (\<exists>ds. bus_devices (snd (lscon_probe env pdev s)) = bus_devices s @ ds
             \<and> map dev_of_node ds =
                 map (Some \<circ> fst) (filter (create_ok \<circ> snd) (pe_children env)))"
proof -
  obtain s5 where s5:
    "lscon_probe env pdev s =
       (None, add_children (pe_children env)
                \<lparr>con_dev = pdev, con_i2c0 = Some a0, con_i2c1 = Some a1, con_spi = Some c\<rparr> s5)"
    "ls_device_ida s5 = ls_device_ida s" "bus_devices s5 = bus_devices s"
    using lscon_probe_attached [OF assms(1,2)] by metis
  have "length (ls_device_ida s5) + length (pe_children env) \<le> INT_MAX"
    using assms(3) s5 by simp
  from add_children_devices [OF this] show ?thesis
    using s5 by simp
qed

lemma demo_env_ready:
  "bundle_resolves (demo_env cs) ''/soc/i2c@0'' 0 ''/soc/i2c@1'' 1 ''/soc/spi@0'' 0"
  "files_created (demo_env cs)"
  "bundle_resolves reattach_env ''/soc/i2c@0'' 0 ''/soc/i2c@1'' 1 ''/soc/spi@0'' 0"
  by (simp_all add: bundle_resolves_def files_created_def demo_env_def demo_links_def
      demo_adapters_def demo_spi_def no_error_def reattach_env_def)

theorem child_errors_do_not_fail_attach_witness:
  "bundle_resolves
     (demo_env [(''/lscon/mezz0'', out_of_memory), (''/lscon/mezz1'', created None)])
     ''/soc/i2c@0'' 0 ''/soc/i2c@1'' 1 ''/soc/spi@0'' 0
   \<and> files_created
       (demo_env [(''/lscon/mezz0'', out_of_memory), (''/lscon/mezz1'', created None)])
   \<and> fst (lscon_probe
            (demo_env [(''/lscon/mezz0'', out_of_memory), (''/lscon/mezz1'', created None)])
            ''lscon'' (boot_state [])) = None
   \<and> map dev_of_node (bus_devices (snd (lscon_probe
            (demo_env [(''/lscon/mezz0'', out_of_memory), (''/lscon/mezz1'', created None)])
            ''lscon'' (boot_state [])))) = [Some ''/lscon/mezz1'']"
proof -
  let ?env = "demo_env [(''/lscon/mezz0'', out_of_memory), (''/lscon/mezz1'', created None)]"
  have len: "length (ls_device_ida (boot_state [])) + length (pe_children ?env) \<le> INT_MAX"
    by (simp add: boot_state_def demo_env_def INT_MAX_def)
  have kids: "filter (create_ok \<circ> snd) (pe_children ?env) = [(''/lscon/mezz1'', created None)]"
    by (simp add: demo_env_def create_ok_def out_of_memory_def created_def)
  show ?thesis
    using child_errors_do_not_fail_attach [OF demo_env_ready(1,2) len, of "''lscon''"]
      demo_env_ready(1,2) [of "[(''/lscon/mezz0'', out_of_memory), (''/lscon/mezz1'', created None)]"]
    by (auto simp: kids boot_state_def)
qed

text \<open>
  C8 as stated fails on the code: nothing about a failed child reaches the caller. An
  attach with one child whose creation fails with \<^verbatim>\<open>-ENOMEM\<close> returns the same value
  and leaves the same state, log included, as an attach with no child at all.
\<close>

theorem child_errors_counterexample:
  "fst (lscon_add_device out_of_memory demo_connector None (Some ''/lscon/mezz0'')
          (snd (lscon_probe (demo_env []) ''lscon'' (boot_state [])))) = Some ENOMEM
   \<and> fst (lscon_probe (demo_env [(''/lscon/mezz0'', out_of_memory)]) ''lscon'' (boot_state []))
       = None
   \<and> lscon_probe (demo_env [(''/lscon/mezz0'', out_of_memory)]) ''lscon'' (boot_state [])
       = lscon_probe (demo_env []) ''lscon'' (boot_state [])"
proof -
  have nomem: "lscon_add_device out_of_memory ls name np s = (Some ENOMEM, s)" for ls name np s
    by (simp add: lscon_add_device_def out_of_memory_def)
  have kids: "pe_children (demo_env cs) = cs" for cs
    by (simp add: demo_env_def)
  have "lscon_probe (demo_env cs) ''lscon'' (boot_state []) =
      lscon_probe_bus (demo_env cs) ''lscon'' demo_connector
        ((boot_state [])\<lparr>bus_log := bus_log (boot_state [])
            @ resolved_log ''/soc/i2c@0'' 0 ''/soc/i2c@1'' 1 ''/soc/spi@0'' 0\<rparr>)" for cs
    by (simp add: lscon_probe_resolved [OF demo_env_ready(1)] demo_connector_def)
  then show ?thesis
    by (simp add: nomem lscon_probe_bus_files [OF demo_env_ready(2)] kids)
qed

subsection \<open>A failed attach\<close>

text \<open>
  C2, at the input where it fails. On the example board, with the three links resolved,
  \<^verbatim>\<open>bus_create_file\<close> fails with \<^verbatim>\<open>-EEXIST\<close>. \<^verbatim>\<open>lscon_probe\<close> returns the error
  after putting the two I2C adapters; the reference to the SPI controller is still held
  and \<^verbatim>\<open>dev_root\<close> still names the connector.
\<close>

theorem attach_file_failure_keeps_spi:
  "fst (lscon_probe reattach_env ''lscon'' (boot_state [])) = Some EEXIST
   \<and> held (snd (lscon_probe reattach_env ''lscon'' (boot_state []))) = [Up_spi 0]
   \<and> bus_dev_root (snd (lscon_probe reattach_env ''lscon'' (boot_state []))) = Some ''lscon''
   \<and> bus_log (snd (lscon_probe reattach_env ''lscon'' (boot_state []))) =
       resolved_log ''/soc/i2c@0'' 0 ''/soc/i2c@1'' 1 ''/soc/spi@0'' 0
       @ [Ev_set_dev_root (Some ''lscon''), Ev_i2c_put (Some 1), Ev_i2c_put (Some 0)]"
proof -
  have exists: "pe_create_file reattach_env ''supported'' = Some EEXIST"
    by (simp add: reattach_env_def file_exists_def)
  show ?thesis
    by (simp add: lscon_probe_resolved [OF demo_env_ready(3)] lscon_probe_bus_def
        bus_create_file_def exists out_put_i2c1_def out_put_i2c0_def held_def resolved_log_def
        boot_state_def)
qed


text \<open>For the failures of the link resolutions the rollback leaves nothing held.\<close>

lemma link_failure_holds_nothing:
  assumes "bus_log s = []" and "pe_kzalloc env"
    and "pe_phandle env ''i2c0'' = None \<or> pe_phandle env ''i2c1'' = None
       \<or> pe_phandle env ''spi'' = None
       \<or> (\<exists>n. pe_phandle env ''i2c0'' = Some n \<and> pe_i2c_adapter env n = None)
       \<or> (\<exists>n. pe_phandle env ''i2c1'' = Some n \<and> pe_i2c_adapter env n = None)
       \<or> (\<exists>n. pe_phandle env ''spi'' = Some n \<and> pe_spi_controller env n = None)
       \<or> \<not> pe_spi_get env"
  shows "fst (lscon_probe env pdev s) \<noteq> None \<and> held (snd (lscon_probe env pdev s)) = []"
  using assms
  by (auto simp: lscon_probe_def lscon_probe_i2c1_def lscon_probe_spi_def
      of_parse_phandle_def of_get_i2c_adapter_by_node_def of_find_spi_controller_by_node_def
      spi_controller_get_def out_put_i2c1_def out_put_i2c0_def held_def
      split: option.splits)

subsection \<open>Missing links and absent providers\<close>

lemma lookups_logged [simp]:
  "lookups (logged e s) = lookups s @ (if is_lookup e then [e] else [])"
  by (simp add: lookups_def)

text \<open>
  C4. In \<^verbatim>\<open>lscon_probe\<close> each of the three links, in the order i2c0, i2c1, spi, is
  looked up once: a link that the connector node does not declare makes the probe stop
  with \<^verbatim>\<open>-ENODEV\<close>; a declared link whose provider is not there makes it stop with
  \<^verbatim>\<open>-EPROBE_DEFER\<close>, a different value, after exactly one lookup of each provider up
  to the absent one. In both cases the bus is left as it was.
\<close>

theorem link_missing_or_not_ready:
  assumes "pe_kzalloc env" and "bus_log s = []"
  shows
    "ENODEV \<noteq> EPROBE_DEFER
     \<and> (pe_phandle env ''i2c0'' = None \<longrightarrow> aborted env pdev s ENODEV)
     \<and> (\<forall>n0. pe_phandle env ''i2c0'' = Some n0 \<and> pe_i2c_adapter env n0 = None \<longrightarrow>
           aborted env pdev s EPROBE_DEFER
           \<and> lookups (snd (lscon_probe env pdev s)) = [Ev_i2c_lookup n0])
     \<and> (\<forall>n0 a0. i2c_link env ''i2c0'' n0 a0 \<and> pe_phandle env ''i2c1'' = None \<longrightarrow>
           aborted env pdev s ENODEV)
     \<and> (\<forall>n0 a0 n1. i2c_link env ''i2c0'' n0 a0 \<and> pe_phandle env ''i2c1'' = Some n1
             \<and> pe_i2c_adapter env n1 = None \<longrightarrow>
           aborted env pdev s EPROBE_DEFER
           \<and> lookups (snd (lscon_probe env pdev s)) = [Ev_i2c_lookup n0, Ev_i2c_lookup n1])
     \<and> (\<forall>n0 a0 n1 a1. i2c_link env ''i2c0'' n0 a0 \<and> i2c_link env ''i2c1'' n1 a1
             \<and> pe_phandle env ''spi'' = None \<longrightarrow>
           aborted env pdev s ENODEV)
     \<and> (\<forall>n0 a0 n1 a1 ns. i2c_link env ''i2c0'' n0 a0 \<and> i2c_link env ''i2c1'' n1 a1
             \<and> pe_phandle env ''spi'' = Some ns \<and> pe_spi_controller env ns = None \<longrightarrow>
           aborted env pdev s EPROBE_DEFER
           \<and> lookups (snd (lscon_probe env pdev s)) =
               [Ev_i2c_lookup n0, Ev_i2c_lookup n1, Ev_spi_lookup ns])"
  using assms
  by (auto simp: aborted_def i2c_link_def lscon_probe_def lscon_probe_i2c1_def
      lscon_probe_spi_def of_parse_phandle_def of_get_i2c_adapter_by_node_def
      of_find_spi_controller_by_node_def out_put_i2c1_def out_put_i2c0_def lookups_def)

theorem link_missing_or_not_ready_witness:
  "pe_kzalloc spi_absent \<and> bus_log (boot_state []) = []
   \<and> i2c_link spi_absent ''i2c0'' ''/soc/i2c@0'' 0 \<and> i2c_link spi_absent ''i2c1'' ''/soc/i2c@1'' 1
   \<and> pe_phandle spi_absent ''spi'' = Some ''/soc/spi@0''
   \<and> pe_spi_controller spi_absent ''/soc/spi@0'' = None
   \<and> aborted spi_absent ''lscon'' (boot_state []) EPROBE_DEFER
   \<and> lookups (snd (lscon_probe spi_absent ''lscon'' (boot_state []))) =
       [Ev_i2c_lookup ''/soc/i2c@0'', Ev_i2c_lookup ''/soc/i2c@1'', Ev_spi_lookup ''/soc/spi@0'']
   \<and> pe_kzalloc no_links \<and> pe_phandle no_links ''i2c0'' = None
   \<and> aborted no_links ''lscon'' (boot_state []) ENODEV"
proof -
  have log: "bus_log (boot_state []) = []"
    by (simp add: boot_state_def)
  have a: "pe_kzalloc spi_absent" "i2c_link spi_absent ''i2c0'' ''/soc/i2c@0'' 0"
    "i2c_link spi_absent ''i2c1'' ''/soc/i2c@1'' 1"
    "pe_phandle spi_absent ''spi'' = Some ''/soc/spi@0''"
    "pe_spi_controller spi_absent ''/soc/spi@0'' = None"
    by (simp_all add: spi_absent_def demo_env_def i2c_link_def demo_links_def demo_adapters_def)
  have b: "pe_kzalloc no_links" "pe_phandle no_links ''i2c0'' = None"
    by (simp_all add: no_links_def demo_env_def)
  note spi_case = link_missing_or_not_ready [OF a(1) log, of "''lscon''", THEN conjunct2,
      THEN conjunct2, THEN conjunct2, THEN conjunct2, THEN conjunct2, THEN conjunct2,
      rule_format]
  have "aborted spi_absent ''lscon'' (boot_state []) EPROBE_DEFER
      \<and> lookups (snd (lscon_probe spi_absent ''lscon'' (boot_state []))) =
          [Ev_i2c_lookup ''/soc/i2c@0'', Ev_i2c_lookup ''/soc/i2c@1'', Ev_spi_lookup ''/soc/spi@0'']"
    by (rule spi_case [of "''/soc/i2c@0''" 0 "''/soc/i2c@1''" 1 "''/soc/spi@0''"])
      (insert a, simp)
  moreover have "aborted no_links ''lscon'' (boot_state []) ENODEV"
    by (rule link_missing_or_not_ready [OF b(1) log, of "''lscon''", THEN conjunct2,
          THEN conjunct1, rule_format]) (rule b(2))
  ultimately show ?thesis
    using a b log by simp
qed


subsection \<open>Detaching\<close>

lemma fold_remove1_self: "fold remove1 xs (xs @ ys) = ys"
  by (induction xs) simp_all

lemma bus_for_each_dev_effect:
  "bus_log (bus_for_each_dev ds s) = bus_log s @ concat (map del_events ds)"
  "bus_devices (bus_for_each_dev ds s) = fold remove1 ds (bus_devices s)"
  "bus_dev_root (bus_for_each_dev ds s) = bus_dev_root s"
  "plat_drvdata (bus_for_each_dev ds s) = plat_drvdata s"
  by (induction ds arbitrary: s) (simp_all add: lscon_del_device_fields)

text \<open>What \<^verbatim>\<open>lscon_remove\<close> does when the platform device has its driver data.\<close>

lemma lscon_remove_effect:
  assumes "plat_drvdata s pdev = Some ls"
  shows "\<exists>s'. lscon_remove pdev s = Inr s'
           \<and> bus_log s' = bus_log s @ concat (map del_events (bus_devices s))
               @ [Ev_set_dev_root None, Ev_spi_put (con_spi ls), Ev_i2c_put (con_i2c1 ls),
                  Ev_i2c_put (con_i2c0 ls)]
           \<and> bus_devices s' = [] \<and> bus_dev_root s' = None"
  using assms fold_remove1_self [of "bus_devices s" "[]"]
  by (simp add: lscon_remove_def bus_for_each_dev_effect)

lemma count_del_events_other:
  "dev_id x \<noteq> i \<Longrightarrow> count_list (del_events x) (Ev_driver_remove n i) = 0"
  by (simp add: del_events_def split: option.splits)

lemma count_del_events_absent:
  "i \<notin> dev_id ` set ds \<Longrightarrow> count_list (concat (map del_events ds)) (Ev_driver_remove n i) = 0"
  by (induction ds) (simp_all add: count_del_events_other)

lemma count_del_events_own:
  "dev_driver d = Some drv \<Longrightarrow> drv_has_remove drv \<Longrightarrow>
     count_list (del_events d) (Ev_driver_remove (drv_name drv) (dev_id d)) = 1"
  by (simp add: del_events_def)

lemma remove_called_once:
  assumes "distinct (map dev_id ds)" "d \<in> set ds" "dev_driver d = Some drv"
    "drv_has_remove drv"
  shows "count_list (concat (map del_events ds)) (Ev_driver_remove (drv_name drv) (dev_id d)) = 1"
  using assms(1,2)
proof (induction ds)
  case Nil
  then show ?case by simp
next
  case (Cons x ds)
  show ?case
  proof (cases "x = d")
    case True
    have "dev_id d \<notin> dev_id ` set ds"
      using Cons.prems(1) True by simp
    then show ?thesis
      using True assms(3,4) by (simp add: count_del_events_absent count_del_events_own)
  next
    case False
    then have "d \<in> set ds" using Cons.prems by simp
    moreover have "dev_id x \<noteq> dev_id d"
      using Cons.prems(1) \<open>d \<in> set ds\<close> by auto
    ultimately show ?thesis
      using Cons by (simp add: count_del_events_other)
  qed
qed

text \<open>
  C7 (as amended). \<^verbatim>\<open>lscon_remove\<close>, on a platform device that has its driver data,
  first destroys every device on the bus, in bus order, calling the remove callback of
  each bound driver that has one (exactly once per device when the ids are distinct);
  then it clears the global reference \<^verbatim>\<open>dev_root\<close>; then it puts the SPI controller,
  then I2C-B, then I2C-A. Afterwards the bus is empty.
\<close>

theorem detach_order:
  assumes "plat_drvdata s pdev = Some ls"
  shows "\<exists>s'. lscon_remove pdev s = Inr s'
           \<and> bus_log s' = bus_log s @ concat (map del_events (bus_devices s))
               @ [Ev_set_dev_root None, Ev_spi_put (con_spi ls), Ev_i2c_put (con_i2c1 ls),
                  Ev_i2c_put (con_i2c0 ls)]
           \<and> bus_devices s' = [] \<and> bus_dev_root s' = None
           \<and> (distinct (map dev_id (bus_devices s)) \<longrightarrow>
                (\<forall>d \<in> set (bus_devices s). \<forall>drv.
                   dev_driver d = Some drv \<and> drv_has_remove drv \<longrightarrow>
                   count_list (concat (map del_events (bus_devices s)))
                     (Ev_driver_remove (drv_name drv) (dev_id d)) = 1))"
  using lscon_remove_effect [OF assms] remove_called_once [of "bus_devices s"]
  by auto


text \<open>The example system after its attach.\<close>

lemma demo_attached_bus:
  "bus_dev_root demo_attached = Some ''lscon''"
  "bus_drivers demo_attached = [secure96_driver]"
  "plat_drvdata demo_attached ''lscon'' = Some demo_connector"
  "map dev_name (bus_devices demo_attached) = [''mezzanine0'', ''mezzanine1'']"
  "map dev_id (bus_devices demo_attached) = [0, 1]"
  "concat (map del_events (bus_devices demo_attached))
     = [Ev_driver_remove ''secure96'' 0, Ev_device_del 0, Ev_device_del 1]"
proof -
  let ?cs = "[(''/lscon/mezz0'', created (Some secure96_driver)), (''/lscon/mezz1'', created None)]"
  obtain s5 where s5:
    "lscon_probe (demo_env ?cs) ''lscon'' (boot_state [secure96_driver]) =
       (None, add_children (pe_children (demo_env ?cs))
                \<lparr>con_dev = ''lscon'', con_i2c0 = Some 0, con_i2c1 = Some 1, con_spi = Some 0\<rparr> s5)"
    "ls_device_ida s5 = ls_device_ida (boot_state [secure96_driver])"
    "bus_devices s5 = bus_devices (boot_state [secure96_driver])"
    "bus_drivers s5 = bus_drivers (boot_state [secure96_driver])"
    "bus_dev_root s5 = Some ''lscon''"
    "plat_drvdata s5 ''lscon'' =
       Some \<lparr>con_dev = ''lscon'', con_i2c0 = Some 0, con_i2c1 = Some 1, con_spi = Some 0\<rparr>"
    "bus_log s5 = bus_log (boot_state [secure96_driver])
       @ resolved_log ''/soc/i2c@0'' 0 ''/soc/i2c@1'' 1 ''/soc/spi@0'' 0
       @ [Ev_set_dev_root (Some ''lscon''), Ev_create_file ''supported'',
          Ev_create_file ''inject'', Ev_create_file ''eject'']"
    by (rule lscon_probe_attached [OF demo_env_ready(1,2)])
  show "bus_dev_root demo_attached = Some ''lscon''"
    unfolding demo_attached_def s5(1) by (simp add: s5 add_children_root)
  show "bus_drivers demo_attached = [secure96_driver]"
    unfolding demo_attached_def s5(1)
    by (simp add: s5 add_children_drivers boot_state_def)
  show "plat_drvdata demo_attached ''lscon'' = Some demo_connector"
    unfolding demo_attached_def s5(1) by (simp add: s5 add_children_drvdata demo_connector_def)
  have kids: "pe_children (demo_env ?cs) = ?cs"
    by (simp add: demo_env_def)
  have ida: "ls_device_ida s5 = []" and devs: "bus_devices s5 = []"
    using s5 by (simp_all add: boot_state_def)
  have "bus_devices demo_attached =
      [\<lparr>dev_id = 0, dev_name = ''mezzanine0'', dev_of_node = Some ''/lscon/mezz0'',
        dev_parent = ''lscon'', dev_i2c0 = Some 0, dev_i2c1 = Some 1, dev_spi = Some 0,
        dev_driver = Some secure96_driver\<rparr>,
       \<lparr>dev_id = 1, dev_name = ''mezzanine1'', dev_of_node = Some ''/lscon/mezz1'',
        dev_parent = ''lscon'', dev_i2c0 = Some 0, dev_i2c1 = Some 1, dev_spi = Some 0,
        dev_driver = None\<rparr>]"
    unfolding demo_attached_def s5(1) kids
    by (simp add: lscon_add_device_def ida_simple_get_def INT_MAX_def least_free.simps
        created_def ida devs decimal.simps digit_def Let_def)
  then show "map dev_name (bus_devices demo_attached) = [''mezzanine0'', ''mezzanine1'']"
    and "map dev_id (bus_devices demo_attached) = [0, 1]"
    and "concat (map del_events (bus_devices demo_attached))
      = [Ev_driver_remove ''secure96'' 0, Ev_device_del 0, Ev_device_del 1]"
    by (simp_all add: del_events_def secure96_driver_def)
qed


theorem detach_order_witness:
  "plat_drvdata demo_attached ''lscon'' = Some demo_connector
   \<and> distinct (map dev_id (bus_devices demo_attached))
   \<and> (\<exists>s'. lscon_remove ''lscon'' demo_attached = Inr s'
         \<and> bus_log s' = bus_log demo_attached
             @ [Ev_driver_remove ''secure96'' 0, Ev_device_del 0, Ev_device_del 1,
                Ev_set_dev_root None, Ev_spi_put (Some 0), Ev_i2c_put (Some 1),
                Ev_i2c_put (Some 0)]
         \<and> bus_devices s' = [] \<and> bus_dev_root s' = None)"
proof -
  note dels = demo_attached_bus(6)
  show ?thesis
    using detach_order [OF demo_attached_bus(3)] dels
    by (auto simp: demo_attached_bus demo_connector_def)
qed

text \<open>
  C7 as stated fails on the code: in the detach of the example system the global
  reference is cleared before the SPI controller and the I2C adapters are put, not after.
\<close>

theorem detach_order_counterexample:
  "map_sum id bus_log (lscon_remove ''lscon'' demo_attached) =
     Inr (bus_log demo_attached
          @ [Ev_driver_remove ''secure96'' 0, Ev_device_del 0, Ev_device_del 1,
             Ev_set_dev_root None, Ev_spi_put (Some 0), Ev_i2c_put (Some 1),
             Ev_i2c_put (Some 0)])
   \<and> map_sum id bus_log (lscon_remove ''lscon'' demo_attached) \<noteq>
       Inr (bus_log demo_attached @ spec_detach_log demo_connector (bus_devices demo_attached))"
proof -
  note dels = demo_attached_bus(6)
  show ?thesis
    using lscon_remove_effect [OF demo_attached_bus(3)] dels
    by (auto simp: spec_detach_log_def demo_connector_def)
qed


subsection \<open>The inject and eject attributes\<close>

lemma bus_for_each_drv_inject_match:
  "bus_for_each_drv drvs (ls_inject_match devname) = 0 \<longleftrightarrow> devname \<notin> drv_name ` set drvs"
  by (induction drvs) (auto simp: ls_inject_match_def Let_def)

lemma bus_find_device_by_name_none:
  "bus_find_device_by_name devs devname = None \<longleftrightarrow> devname \<notin> dev_name ` set devs"
  by (auto simp: bus_find_device_by_name_def find_None_iff)

lemma strstrip_examples:
  "strstrip (kstrdup (''secure96'' @ [CHR 0x0A])) = (0, ''secure96'')"
  "strstrip (kstrdup ''  no such board '') = (2, ''no such board'')"
  "strstrip (kstrdup ''   '') = (0, [])"
  by (simp_all add: strstrip_def kstrdup_def isspace_def)

text \<open>
  A write that does not begin with whitespace (or is nothing but whitespace) and matches
  nothing: with a connector attached and the copy allocated, both attributes return the
  count and leave the bus as it was.
\<close>

lemma unmatched_names_return_count:
  assumes "bus_dev_root s \<noteq> None" and "fst (strstrip (kstrdup buf)) = 0"
  shows "snd (strstrip (kstrdup buf)) \<notin> drv_name ` set (bus_drivers s) \<Longrightarrow>
           ls_inject_store True ce buf count s = Inr (count, s)"
    and "snd (strstrip (kstrdup buf)) \<notin> dev_name ` set (bus_devices s) \<Longrightarrow>
           ls_eject_store True buf count s = Inr (count, s)"
proof -
  obtain dev where root: "bus_dev_root s = Some dev"
    using assms(1) by auto
  show "ls_inject_store True ce buf count s = Inr (count, s)"
    if "snd (strstrip (kstrdup buf)) \<notin> drv_name ` set (bus_drivers s)"
    using that root assms(2)
    by (simp add: ls_inject_store_def dev_get_drvdata_def bus_for_each_drv_inject_match
        kfree_def)
  show "ls_eject_store True buf count s = Inr (count, s)"
    if "snd (strstrip (kstrdup buf)) \<notin> dev_name ` set (bus_devices s)"
  proof -
    have "bus_find_device_by_name (bus_devices s) (snd (strstrip (kstrdup buf))) = None"
      using that by (simp add: bus_find_device_by_name_none)
    then show ?thesis
      using root assms(2) by (simp add: ls_eject_store_def dev_get_drvdata_def kfree_def)
  qed
qed

lemma demo_attached_names:
  "drv_name ` set (bus_drivers demo_attached) = {''secure96''}"
  "dev_name ` set (bus_devices demo_attached) = {''mezzanine0'', ''mezzanine1''}"
proof -
  show "drv_name ` set (bus_drivers demo_attached) = {''secure96''}"
    by (simp add: demo_attached_bus secure96_driver_def)
  have "set (map dev_name (bus_devices demo_attached)) = {''mezzanine0'', ''mezzanine1''}"
    by (simp only: demo_attached_bus) simp
  then show "dev_name ` set (bus_devices demo_attached) = {''mezzanine0'', ''mezzanine1''}"
    by simp
qed

text \<open>
  C5, at an input where it fails. On the example board, attached, the string
  \<open>''  no such board ''\<close> is written to inject and to eject. After trimming it is
  \<open>''no such board''\<close>, the name of no registered driver and of no device on the bus,
  so each write is to return the count and change nothing. Either function hands
  \<^verbatim>\<open>kfree\<close> the pointer that \<^verbatim>\<open>strstrip\<close> returned, two characters into the copy,
  and faults.
\<close>

theorem unmatched_name_after_blanks_faults:
  "strstrip (kstrdup ''  no such board '') = (2, ''no such board'')
   \<and> ''no such board'' \<notin> drv_name ` set (bus_drivers demo_attached)
   \<and> ''no such board'' \<notin> dev_name ` set (bus_devices demo_attached)
   \<and> bus_dev_root demo_attached = Some ''lscon''
   \<and> ls_inject_store True (created None) ''  no such board '' 16 demo_attached = Inl Bad_free
   \<and> ls_eject_store True ''  no such board '' 16 demo_attached = Inl Bad_free"
proof -
  have no: "''no such board'' \<notin> drv_name ` set (bus_drivers demo_attached)"
    "''no such board'' \<notin> dev_name ` set (bus_devices demo_attached)"
    by (simp_all add: demo_attached_names)
  have "bus_find_device_by_name (bus_devices demo_attached) ''no such board'' = None"
    using no(2) by (simp add: bus_find_device_by_name_none)
  then have "ls_eject_store True ''  no such board '' 16 demo_attached = Inl Bad_free"
    by (simp add: ls_eject_store_def dev_get_drvdata_def demo_attached_bus(1)
        strstrip_examples kfree_def)
  moreover have
    "ls_inject_store True (created None) ''  no such board '' 16 demo_attached = Inl Bad_free"
    using no(1)
    by (simp add: ls_inject_store_def dev_get_drvdata_def demo_attached_bus(1)
        strstrip_examples kfree_def bus_for_each_drv_inject_match)
  ultimately show ?thesis
    using no by (simp add: strstrip_examples demo_attached_bus(1))
qed

text \<open>The same writes without the two leading blanks return the count.\<close>

lemma unmatched_name_without_blanks:
  "ls_inject_store True (created None) ''no such board '' 14 demo_attached
     = Inr (14, demo_attached)"
  "ls_eject_store True ''no such board '' 14 demo_attached = Inr (14, demo_attached)"
proof -
  have strip: "strstrip (kstrdup ''no such board '') = (0, ''no such board'')"
    by (simp add: strstrip_def kstrdup_def isspace_def)
  have root: "bus_dev_root demo_attached \<noteq> None"
    by (simp add: demo_attached_bus)
  show "ls_inject_store True (created None) ''no such board '' 14 demo_attached
      = Inr (14, demo_attached)"
    by (rule unmatched_names_return_count(1) [OF root]) (simp_all add: strip demo_attached_names)
  show "ls_eject_store True ''no such board '' 14 demo_attached = Inr (14, demo_attached)"
    by (rule unmatched_names_return_count(2) [OF root]) (simp_all add: strip demo_attached_names)
qed

text \<open>
  C9. A write to inject or to eject reads the bus's \<^verbatim>\<open>dev_root\<close> and that device's
  driver data before anything else and without a test: when no connector is attached
  (\<^verbatim>\<open>dev_root\<close> is NULL) both fault on the NULL pointer, whatever is written and
  whether or not the copy of the string can be allocated. That is the state a detach
  leaves. With a connector attached, its driver data set and the copy allocated, neither
  reads a NULL pointer, and both return the count when the pointer they free is the one
  \<^verbatim>\<open>kstrdup\<close> returned.
\<close>

theorem store_needs_attached_connector:
  "(bus_dev_root s = None \<longrightarrow>
      ls_inject_store mem ce buf count s = Inl Null_deref
      \<and> ls_eject_store mem buf count s = Inl Null_deref)
   \<and> (\<forall>s'. lscon_remove pdev s = Inr s' \<longrightarrow>
         bus_dev_root s' = None
         \<and> ls_inject_store mem ce buf count s' = Inl Null_deref
         \<and> ls_eject_store mem buf count s' = Inl Null_deref)
   \<and> (\<forall>dev. bus_dev_root s = Some dev \<and> plat_drvdata s dev \<noteq> None \<longrightarrow>
         ls_inject_store True ce buf count s \<noteq> Inl Null_deref
         \<and> ls_eject_store True buf count s \<noteq> Inl Null_deref
         \<and> (fst (strstrip (kstrdup buf)) = 0 \<longrightarrow>
              (\<exists>t. ls_inject_store True ce buf count s = Inr (count, t))
              \<and> (\<exists>t. ls_eject_store True buf count s = Inr (count, t))))"
proof -
  have detached: "ls_inject_store mem ce buf count t = Inl Null_deref
      \<and> ls_eject_store mem buf count t = Inl Null_deref" if "bus_dev_root t = None" for t
    using that by (simp add: ls_inject_store_def ls_eject_store_def dev_get_drvdata_def)
  have cleared: "bus_dev_root s' = None" if "lscon_remove pdev s = Inr s'" for s'
    using that by (auto simp: lscon_remove_def Let_def split: option.splits)
  have no_null: "ls_inject_store True ce buf count s \<noteq> Inl Null_deref
      \<and> ls_eject_store True buf count s \<noteq> Inl Null_deref"
    if "bus_dev_root s = Some dev" "plat_drvdata s dev \<noteq> None" for dev
    using that
    by (auto simp: ls_inject_store_def ls_eject_store_def dev_get_drvdata_def Let_def
        kfree_def split: option.splits)
  have attached: "(\<exists>t. ls_inject_store True ce buf count s = Inr (count, t))
      \<and> (\<exists>t. ls_eject_store True buf count s = Inr (count, t))"
    if "bus_dev_root s = Some dev" "plat_drvdata s dev \<noteq> None"
      "fst (strstrip (kstrdup buf)) = 0" for dev
    using that
    by (auto simp: ls_inject_store_def ls_eject_store_def dev_get_drvdata_def Let_def
        kfree_def split: option.splits)
  show ?thesis
    using detached cleared no_null attached by blast
qed

theorem store_needs_attached_connector_witness:
  "(\<exists>s'. lscon_remove ''lscon'' demo_attached = Inr s'
      \<and> bus_dev_root s' = None
      \<and> ls_inject_store True (created None) ''secure96'' 8 s' = Inl Null_deref
      \<and> ls_eject_store True ''mezzanine0'' 10 s' = Inl Null_deref)
   \<and> bus_dev_root demo_attached = Some ''lscon''
   \<and> plat_drvdata demo_attached ''lscon'' \<noteq> None
   \<and> fst (strstrip (kstrdup ''secure96'')) = 0
   \<and> (\<exists>t. ls_inject_store True (created None) ''secure96'' 8 demo_attached = Inr (8, t))"
proof -
  obtain s' where s': "lscon_remove ''lscon'' demo_attached = Inr s'"
    using lscon_remove_effect [OF demo_attached_bus(3)] by blast
  have strip: "fst (strstrip (kstrdup ''secure96'')) = 0"
    by (simp add: strstrip_def kstrdup_def isspace_def)
  note inst = store_needs_attached_connector
    [of demo_attached True "created None" "''secure96''" 8 "''lscon''"]
  have "bus_dev_root s' = None
      \<and> ls_inject_store True (created None) ''secure96'' 8 s' = Inl Null_deref"
    using inst s' by blast
  moreover have "ls_eject_store True ''mezzanine0'' 10 s' = Inl Null_deref"
    using store_needs_attached_connector
      [of demo_attached True "created None" "''mezzanine0''" 10 "''lscon''"] s'
    by blast
  moreover have "\<exists>t. ls_inject_store True (created None) ''secure96'' 8 demo_attached = Inr (8, t)"
    using inst demo_attached_bus(1,3) strip by blast
  ultimately show ?thesis
    using s' demo_attached_bus(1,3) strip by simp
qed

end
